theory Spec2Isabelle
  imports Complex_Main
begin

section \<open>Python strings and POSIX paths\<close>

text \<open>
  The handlers of the repository are thin wrappers around a document engine. What the
  repository itself computes is string and path handling, index validation, the
  translation of exceptions and the construction of result dictionaries. This theory
  embeds those functions. Strings are Python \<open>str\<close> values restricted to 8-bit
  characters; paths follow \<open>posixpath\<close>.
\<close>

definition lower_char :: "char \<Rightarrow> char" where
  "lower_char c =
     (case map_of (zip ''ABCDEFGHIJKLMNOPQRSTUVWXYZ'' ''abcdefghijklmnopqrstuvwxyz'') c of
        Some l \<Rightarrow> l
      | None \<Rightarrow> c)"

text \<open>\<open>str.lower()\<close> on ASCII letters.\<close>

definition lower :: "string \<Rightarrow> string" where
  "lower s = map lower_char s"

text \<open>\<open>s.startswith(p)\<close> and \<open>s.endswith(p)\<close>.\<close>

definition startswith :: "string \<Rightarrow> string \<Rightarrow> bool" where
  "startswith s p = (take (length p) s = p)"

definition endswith :: "string \<Rightarrow> string \<Rightarrow> bool" where
  "endswith s p = (length p \<le> length s \<and> drop (length s - length p) s = p)"

text \<open>\<open>s.rstrip(c)\<close> for a single character \<open>c\<close>.\<close>

definition rstrip_char :: "char \<Rightarrow> string \<Rightarrow> string" where
  "rstrip_char c s = rev (dropWhile (\<lambda>x. x = c) (rev s))"

text \<open>\<open>s[:s.rfind(c) + 1]\<close>: everything up to and including the last \<open>c\<close>
  (empty when \<open>c\<close> does not occur, since \<open>rfind\<close> is then \<open>-1\<close>).\<close>

definition upto_last :: "char \<Rightarrow> string \<Rightarrow> string" where
  "upto_last c s = rev (dropWhile (\<lambda>x. x \<noteq> c) (rev s))"

text \<open>\<open>s[s.rfind(c) + 1:]\<close>: everything after the last \<open>c\<close> (all of \<open>s\<close>
  when \<open>c\<close> does not occur). This is \<open>s.split(c)[-1]\<close>.\<close>

definition after_last :: "char \<Rightarrow> string \<Rightarrow> string" where
  "after_last c s = rev (takeWhile (\<lambda>x. x \<noteq> c) (rev s))"


text \<open>\<open>s.split(c)\<close>: the fields between the occurrences of \<open>c\<close>; never empty.\<close>

fun split_on :: "char \<Rightarrow> string \<Rightarrow> string list" where
  "split_on c [] = [[]]"
| "split_on c (x # xs) =
     (if x = c then [] # split_on c xs
      else (case split_on c xs of
              [] \<Rightarrow> [[x]]
            | f # fs \<Rightarrow> (x # f) # fs))"

text \<open>\<open>sep.join(fields)\<close>.\<close>

fun join_with :: "string \<Rightarrow> string list \<Rightarrow> string" where
  "join_with sep [] = []"
| "join_with sep [f] = f"
| "join_with sep (f # g # fs) = f @ sep @ join_with sep (g # fs)"

text \<open>\<open>str(n)\<close> for an integer.\<close>

definition digit_char :: "nat \<Rightarrow> char" where
  "digit_char d = ''0123456789'' ! (d mod 10)"

function str_nat :: "nat \<Rightarrow> string" where
  "str_nat n = (if n < 10 then [digit_char n] else str_nat (n div 10) @ [digit_char n])"
  by pat_completeness auto
termination
  by (relation "measure id") auto

definition str_int :: "int \<Rightarrow> string" where
  "str_int i = (if i < 0 then CHR ''-'' # str_nat (nat (- i)) else str_nat (nat i))"

subsection \<open>posixpath\<close>

text \<open>\<open>os.path.join(a, b)\<close> with one component \<open>b\<close>.\<close>

definition path_join :: "string \<Rightarrow> string \<Rightarrow> string" where
  "path_join a b =
     (if startswith b ''/'' then b
      else if a = [] \<or> endswith a ''/'' then a @ b
      else a @ ''/'' @ b)"

text \<open>\<open>os.path.dirname(p)\<close>: the head up to the last separator, with trailing
  separators removed unless the head consists of separators only.\<close>

definition dirname :: "string \<Rightarrow> string" where
  "dirname p =
     (let head = upto_last CHR ''/'' p
      in if head \<noteq> [] \<and> head \<noteq> replicate (length head) CHR ''/''
         then rstrip_char CHR ''/'' head
         else head)"


text \<open>The loop of \<open>os.path.normpath\<close> over the components of the path.\<close>

fun norm_comps :: "bool \<Rightarrow> string list \<Rightarrow> string list \<Rightarrow> string list" where
  "norm_comps initial_slashes new_comps [] = new_comps"
| "norm_comps initial_slashes new_comps (part # comps) =
     (if part = [] \<or> part = ''.'' then norm_comps initial_slashes new_comps comps
      else if part \<noteq> ''..'' \<or> (\<not> initial_slashes \<and> new_comps = [])
                \<or> (new_comps \<noteq> [] \<and> last new_comps = ''..'')
      then norm_comps initial_slashes (new_comps @ [part]) comps
      else if new_comps \<noteq> [] then norm_comps initial_slashes (butlast new_comps) comps
      else norm_comps initial_slashes new_comps comps)"

definition normpath :: "string \<Rightarrow> string" where
  "normpath path =
     (if path = [] then ''.''
      else
        let initial_slashes =
              (if startswith path ''/'' then
                 (if startswith path ''//'' \<and> \<not> startswith path ''///'' then 2 else (1::nat))
               else 0);
            comps = norm_comps (initial_slashes \<noteq> 0) [] (split_on CHR ''/'' path);
            joined = replicate initial_slashes CHR ''/'' @ join_with ''/'' comps
        in if joined = [] then ''.'' else joined)"

text \<open>\<open>os.path.abspath(p)\<close> in the working directory \<open>cwd\<close>.\<close>

definition abspath_in :: "string \<Rightarrow> string \<Rightarrow> string" where
  "abspath_in cwd p = normpath (if startswith p ''/'' then p else path_join cwd p)"

text \<open>The extension that \<open>os.path.splitext(p)[1]\<close> returns: from the last dot of the
  last component, unless that component consists of leading dots up to there.\<close>

definition splitext_ext :: "string \<Rightarrow> string" where
  "splitext_ext p =
     (let name = after_last CHR ''/'' p;
          stem = dropWhile (\<lambda>x. x = CHR ''.'') name
      in if CHR ''.'' \<in> set stem then CHR ''.'' # after_last CHR ''.'' stem else [])"

section \<open>Exceptions and envelopes\<close>

text \<open>
  The exception classes of \<open>utils/exceptions.py\<close>, each with its message and its
  error code. \<open>PyException\<close> stands for every exception that is not a
  \<open>SpireDocError\<close> (raised by the engine, the operating system or the interpreter),
  with the text \<open>str(e)\<close> gives.
\<close>

datatype py_exn =
    SpireDocError string string
  | DocumentError string string
  | TableError string string
  | ParagraphError string string
  | ConversionError string string
  | PyException string

text \<open>The constructors' default codes.\<close>

definition DocumentError_default :: "string \<Rightarrow> py_exn" where
  "DocumentError_default msg = DocumentError msg ''DOC_LOAD_ERROR''"

definition TableError_default :: "string \<Rightarrow> py_exn" where
  "TableError_default msg = TableError msg ''TABLE_CREATE_ERROR''"

definition ParagraphError_default :: "string \<Rightarrow> py_exn" where
  "ParagraphError_default msg = ParagraphError msg ''PARA_CREATE_ERROR''"

definition ConversionError_default :: "string \<Rightarrow> py_exn" where
  "ConversionError_default msg = ConversionError msg ''CONV_PROCESS_ERROR''"

text \<open>\<open>str(e)\<close>: a \<open>SpireDocError\<close> passes its message to \<open>Exception\<close>.\<close>

fun str_exn :: "py_exn \<Rightarrow> string" where
  "str_exn (SpireDocError msg c) = msg"
| "str_exn (DocumentError msg c) = msg"
| "str_exn (TableError msg c) = msg"
| "str_exn (ParagraphError msg c) = msg"
| "str_exn (ConversionError msg c) = msg"
| "str_exn (PyException msg) = msg"

text \<open>\<open>isinstance(e, C)\<close> for the four subclasses; they are siblings, none is a
  subclass of another.\<close>

fun is_DocumentError :: "py_exn \<Rightarrow> bool" where
  "is_DocumentError (DocumentError msg c) = True"
| "is_DocumentError e = False"

fun is_TableError :: "py_exn \<Rightarrow> bool" where
  "is_TableError (TableError msg c) = True"
| "is_TableError e = False"

fun is_ParagraphError :: "py_exn \<Rightarrow> bool" where
  "is_ParagraphError (ParagraphError msg c) = True"
| "is_ParagraphError e = False"

fun is_ConversionError :: "py_exn \<Rightarrow> bool" where
  "is_ConversionError (ConversionError msg c) = True"
| "is_ConversionError e = False"

text \<open>The error part of an envelope. \<open>details\<close> is a string in the envelopes the
  tool functions build and a dictionary in \<open>SpireDocError.to_dict\<close>.\<close>

datatype details = DetailsText string | DetailsDict "(string \<times> string) list"

record error_info =
  err_code :: string
  err_type :: string
  err_details :: details
  err_suggestion :: string

text \<open>The response of a tool function: \<open>{success: True, message, data}\<close> or
  \<open>{success: False, message, error}\<close>.\<close>

datatype 'a envelope = Success string 'a | Failure string error_info

definition ERROR_CODES :: "(string \<times> string) list" where
  "ERROR_CODES =
     [(''DOC_CREATE_ERROR'', ''Failed to create document''),
      (''DOC_LOAD_ERROR'', ''Failed to load document''),
      (''DOC_SAVE_ERROR'', ''Failed to save document''),
      (''DOC_DELETE_ERROR'', ''Failed to delete document''),
      (''DOC_PROTECT_ERROR'', ''Failed to protect document''),
      (''DOC_INFO_ERROR'', ''Failed to get document info''),
      (''TABLE_CREATE_ERROR'', ''Failed to create table''),
      (''TABLE_UPDATE_ERROR'', ''Failed to update table''),
      (''TABLE_DELETE_ERROR'', ''Failed to delete table''),
      (''TABLE_INFO_ERROR'', ''Failed to get table info''),
      (''PARA_CREATE_ERROR'', ''Failed to create paragraph''),
      (''PARA_UPDATE_ERROR'', ''Failed to update paragraph''),
      (''PARA_DELETE_ERROR'', ''Failed to delete paragraph''),
      (''PARA_INFO_ERROR'', ''Failed to get paragraph info''),
      (''CONV_INPUT_ERROR'', ''Invalid input format''),
      (''CONV_OUTPUT_ERROR'', ''Invalid output format''),
      (''CONV_PROCESS_ERROR'', ''Failed to convert document''),
      (''VAL_REQUIRED'', ''Required field missing''),
      (''VAL_INVALID'', ''Invalid value''),
      (''VAL_FORMAT'', ''Invalid format''),
      (''VAL_RANGE'', ''Value out of range''),
      (''SYS_CONFIG_ERROR'', ''Configuration error''),
      (''SYS_PERMISSION_ERROR'', ''Permission denied''),
      (''SYS_RESOURCE_ERROR'', ''Resource not available''),
      (''SYS_UNKNOWN_ERROR'', ''Unknown error'')]"

fun class_name :: "py_exn \<Rightarrow> string" where
  "class_name (SpireDocError msg c) = ''SpireDocError''"
| "class_name (DocumentError msg c) = ''DocumentError''"
| "class_name (TableError msg c) = ''TableError''"
| "class_name (ParagraphError msg c) = ''ParagraphError''"
| "class_name (ConversionError msg c) = ''ConversionError''"
| "class_name (PyException msg) = ''Exception''"

fun exn_code :: "py_exn \<Rightarrow> string option" where
  "exn_code (SpireDocError msg c) = Some c"
| "exn_code (DocumentError msg c) = Some c"
| "exn_code (TableError msg c) = Some c"
| "exn_code (ParagraphError msg c) = Some c"
| "exn_code (ConversionError msg c) = Some c"
| "exn_code (PyException msg) = None"

text \<open>\<open>SpireDocError.to_dict\<close>; only a \<open>SpireDocError\<close> has the method.\<close>

definition to_dict :: "py_exn \<Rightarrow> unit envelope option" where
  "to_dict e =
     (case exn_code e of
        None \<Rightarrow> None
      | Some c \<Rightarrow>
          Some (Failure (str_exn e)
            \<lparr>err_code = c, err_type = class_name e, err_details = DetailsDict [],
             err_suggestion = (case map_of ERROR_CODES c of Some s \<Rightarrow> s | None \<Rightarrow> ''Unknown error'')\<rparr>))"

section \<open>The document and the file system\<close>

text \<open>
  The document engine is a collaborator, not code of the repository. The handlers read
  and change the engine's object graph through counts, indexers and collection methods;
  the graph is modelled by the lists those counts and indexers range over. Only the
  properties the handlers touch are kept.
\<close>

datatype HorizontalAlignment = Left | Center | Right | Justify | Distribute

datatype LineSpacingRule = AtLeast | Exactly | Multiple

record ParagraphFormat =
  HorizontalAlignment :: HorizontalAlignment
  FirstLineIndent :: rat
  LeftIndent :: rat
  RightIndent :: rat
  LineSpacing :: rat
  LineSpacingRule :: LineSpacingRule
  BeforeSpacing :: rat
  AfterSpacing :: rat

record Paragraph =
  Text :: string
  Format :: ParagraphFormat
  StyleName :: string

record TableCell =
  Cell_Paragraphs :: "Paragraph list"

record TableRow =
  Cells :: "TableCell list"

record Table =
  Rows :: "TableRow list"
  Table_Style :: "string option"

record Section =
  Paragraphs :: "Paragraph list"
  Tables :: "Table list"

record Document =
  Sections :: "Section list"

text \<open>
  A file has access bits and a content: a document the engine can load, or the message
  of the exception \<open>LoadFromFile\<close> raises on it.
\<close>

record file_entry =
  readable :: bool
  writable :: bool
  content :: "string + Document"

text \<open>
  The environment of a call. Files and directories are keyed by absolute path.
  \<open>makedirs_error\<close>, \<open>save_error\<close> and \<open>style_error\<close> say where the operating system
  or the engine raises (with which message); \<open>engine_replace\<close> is the engine's
  \<open>Document.Replace\<close>; \<open>new_paragraph\<close> is the paragraph \<open>AddParagraph()\<close> creates
  and \<open>new_cell\<close> a cell as \<open>ResetCells\<close> creates it;
  \<open>clock\<close> is \<open>datetime.now().isoformat()\<close>.
\<close>

record world =
  cwd :: string
  module_file :: string
  files :: "string \<Rightarrow> file_entry option"
  dirs :: "string set"
  makedirs_error :: "string \<Rightarrow> string option"
  save_error :: "string \<Rightarrow> string option"
  style_error :: "string \<Rightarrow> string option"
  engine_replace :: "Document \<Rightarrow> string \<Rightarrow> string \<Rightarrow> bool \<Rightarrow> bool \<Rightarrow> string + Document"
  new_paragraph :: Paragraph
  new_cell :: TableCell
  clock :: string

definition abspath :: "world \<Rightarrow> string \<Rightarrow> string" where
  "abspath w p = abspath_in (cwd w) p"

definition isfile :: "world \<Rightarrow> string \<Rightarrow> bool" where
  "isfile w p = (files w (abspath w p) \<noteq> None)"

text \<open>\<open>os.path.exists(p)\<close>; the empty path names nothing, so it does not exist.\<close>

definition path_exists :: "world \<Rightarrow> string \<Rightarrow> bool" where
  "path_exists w p = (p \<noteq> [] \<and> (files w (abspath w p) \<noteq> None \<or> abspath w p \<in> dirs w))"

text \<open>\<open>os.makedirs(d)\<close>: raises, or the directory exists afterwards.\<close>

definition makedirs :: "world \<Rightarrow> string \<Rightarrow> string option \<times> world" where
  "makedirs w d =
     (case makedirs_error w d of
        Some msg \<Rightarrow> (Some msg, w)
      | None \<Rightarrow> (None, w\<lparr>dirs := insert (abspath w d) (dirs w)\<rparr>))"

text \<open>\<open>os.access(p, os.R_OK)\<close> and \<open>os.access(p, os.W_OK)\<close>.\<close>

definition access_R :: "world \<Rightarrow> string \<Rightarrow> bool" where
  "access_R w p = (case files w (abspath w p) of None \<Rightarrow> False | Some f \<Rightarrow> readable f)"

definition access_W :: "world \<Rightarrow> string \<Rightarrow> bool" where
  "access_W w p = (case files w (abspath w p) of None \<Rightarrow> False | Some f \<Rightarrow> writable f)"

text \<open>\<open>Document().LoadFromFile(p)\<close>: the loaded document, or the engine's exception.\<close>

definition LoadFromFile :: "world \<Rightarrow> string \<Rightarrow> py_exn + Document" where
  "LoadFromFile w p =
     (case files w (abspath w p) of
        None \<Rightarrow> Inl (PyException (''Cannot open file: '' @ p))
      | Some f \<Rightarrow> (case content f of Inl msg \<Rightarrow> Inl (PyException msg) | Inr d \<Rightarrow> Inr d))"

text \<open>\<open>document.SaveToFile(p)\<close>: raises and leaves the file system as it is, or
  replaces the content of the file (a new file is readable and writable).\<close>

definition SaveToFile :: "world \<Rightarrow> string \<Rightarrow> Document \<Rightarrow> string option \<times> world" where
  "SaveToFile w p d =
     (case save_error w p of
        Some msg \<Rightarrow> (Some msg, w)
      | None \<Rightarrow>
          (None,
           w\<lparr>files := (files w)(abspath w p \<mapsto>
                (case files w (abspath w p) of
                   None \<Rightarrow> \<lparr>readable = True, writable = True, content = Inr d\<rparr>
                 | Some f \<Rightarrow> f\<lparr>content := Inr d\<rparr>))\<rparr>))"

section \<open>Path resolution: \<open>api/base.py\<close>\<close>

text \<open>
  \<open>get_doc_path(filename, doc_files_path)\<close>: the directory defaults to
  \<open>documents\<close> three levels above the module, is created when it does not exist, and
  the joined path is accepted when its \<open>dirname\<close> is the directory, literally.
\<close>

definition get_doc_path :: "world \<Rightarrow> string \<Rightarrow> string option \<Rightarrow> (py_exn + string) \<times> world" where
  "get_doc_path w filename doc_files_path =
     (let doc_dir =
            (case doc_files_path of
               None \<Rightarrow> path_join (dirname (dirname (dirname (module_file w)))) ''documents''
             | Some d \<Rightarrow> d)
      in case (if \<not> path_exists w doc_dir then makedirs w doc_dir else (None, w)) of
           (Some msg, w') \<Rightarrow> (Inl (PyException msg), w')
         | (None, w') \<Rightarrow>
             (let doc_path = path_join doc_dir filename
              in if \<not> (dirname doc_path = doc_dir)
                 then (Inl (DocumentError_default ''Invalid document path''), w')
                 else (Inr doc_path, w')))"

section \<open>Python values\<close>

text \<open>
  The result dictionaries of the handlers: a dictionary is the list of its items in
  insertion order, \<open>d[k]\<close> and \<open>d.get(k)\<close> are \<open>map_of\<close>.
\<close>

datatype json =
    JNone
  | JBool bool
  | JInt int
  | JNum rat
  | JStr string
  | JList "json list"
  | JDict "(string \<times> json) list"

type_synonym dict = "(string \<times> json) list"

text \<open>\<open>d[k]\<close>: a missing key raises \<open>KeyError\<close>.\<close>

definition dict_item :: "dict \<Rightarrow> string \<Rightarrow> py_exn + json" where
  "dict_item d k =
     (case map_of d k of
        None \<Rightarrow> Inl (PyException (CHR 0x27 # k @ [CHR 0x27]))
      | Some v \<Rightarrow> Inr v)"

text \<open>
  An argument a caller may pass where a number is expected. A float carries its value
  and the text \<open>str\<close> gives for it.
\<close>

datatype pyval = PyInt int | PyFloat rat string | PyBool bool | PyStr string

text \<open>\<open>isinstance(v, (int, float))\<close>; \<open>bool\<close> is a subclass of \<open>int\<close>.\<close>

fun is_number :: "pyval \<Rightarrow> bool" where
  "is_number (PyInt i) = True"
| "is_number (PyFloat r s) = True"
| "is_number (PyBool b) = True"
| "is_number (PyStr s) = False"

text \<open>\<open>v < 0\<close> for a number.\<close>

fun is_negative :: "pyval \<Rightarrow> bool" where
  "is_negative (PyInt i) = (i < 0)"
| "is_negative (PyFloat r s) = (r < 0)"
| "is_negative (PyBool b) = False"
| "is_negative (PyStr s) = False"

text \<open>The value the engine stores when a number is assigned to a float property.\<close>

fun number_value :: "pyval \<Rightarrow> rat" where
  "number_value (PyInt i) = of_int i"
| "number_value (PyFloat r s) = r"
| "number_value (PyBool b) = (if b then 1 else 0)"
| "number_value (PyStr s) = 0"

fun str_pyval :: "pyval \<Rightarrow> string" where
  "str_pyval (PyInt i) = str_int i"
| "str_pyval (PyFloat r s) = s"
| "str_pyval (PyBool b) = (if b then ''True'' else ''False'')"
| "str_pyval (PyStr s) = s"

text \<open>\<open>str(type(v))\<close>.\<close>

fun type_repr :: "pyval \<Rightarrow> string" where
  "type_repr (PyInt i) = ''<class int>''"
| "type_repr (PyFloat r s) = ''<class float>''"
| "type_repr (PyBool b) = ''<class bool>''"
| "type_repr (PyStr s) = ''<class str>''"

text \<open>Whitespace for \<open>str.strip()\<close> and \<open>str.split()\<close>.\<close>

definition is_space :: "char \<Rightarrow> bool" where
  "is_space c =
     (c \<in> set [CHR '' '', CHR 0x09, CHR 0x0A, CHR 0x0B, CHR 0x0C, CHR 0x0D,
                 CHR 0x1C, CHR 0x1D, CHR 0x1E, CHR 0x1F, CHR 0x85, CHR 0xA0])"

text \<open>\<open>bool(s.strip())\<close>.\<close>

definition has_text :: "string \<Rightarrow> bool" where
  "has_text s = list_ex (\<lambda>c. \<not> is_space c) s"

text \<open>\<open>s.split()\<close>: the maximal runs of characters that are not whitespace.\<close>

fun split_whitespace :: "string \<Rightarrow> string list" where
  "split_whitespace [] = []"
| "split_whitespace (c # cs) =
     (if is_space c then split_whitespace cs
      else (case cs of
              [] \<Rightarrow> [[c]]
            | d # ds \<Rightarrow>
                if is_space d then [c] # split_whitespace cs
                else (case split_whitespace cs of
                        [] \<Rightarrow> [[c]]
                      | word # ws \<Rightarrow> (c # word) # ws)))"

text \<open>\<open>len(s.split()) if s.strip() else 0\<close>.\<close>

definition word_count :: "string \<Rightarrow> int" where
  "word_count s = (if has_text s then int (length (split_whitespace s)) else 0)"

section \<open>The base handler: \<open>core/base.py\<close>\<close>

text \<open>A handler object: its path and its loaded document (\<open>None\<close> before loading).\<close>

record handler =
  doc_path :: string
  document :: "Document option"

definition doc_extensions :: "string list" where
  "doc_extensions = [''.doc'', ''.docx'', ''.docm'', ''.dot'', ''.dotx'', ''.dotm'']"

text \<open>
  \<open>BaseHandler._load_document\<close>. The body of the \<open>try\<close> is computed first; the
  \<open>except\<close> clause passes a \<open>DocumentError\<close> on and wraps anything else. (A document
  object is truthy, so the check after \<open>LoadFromFile\<close> never fires.)
\<close>

definition load_document :: "world \<Rightarrow> string \<Rightarrow> py_exn + Document" where
  "load_document w p =
     (case (if \<not> access_R w p
            then Inl (DocumentError_default (''No read permission for document: '' @ p))
            else if \<not> access_W w p
            then Inl (DocumentError_default (''No write permission for document: '' @ p))
            else (case LoadFromFile w p of
                    Inl e \<Rightarrow> Inl e
                  | Inr d \<Rightarrow>
                      if length (Sections d) = 0
                      then Inl (DocumentError_default ''Document has no sections'')
                      else Inr d)) of
        Inl e \<Rightarrow>
          if is_DocumentError e then Inl e
          else Inl (DocumentError_default (''Failed to load document: '' @ str_exn e))
      | Inr d \<Rightarrow> Inr d)"

text \<open>\<open>BaseHandler.__init__(doc_path)\<close>: the handler, or the exception raised.\<close>

definition BaseHandler_init :: "world \<Rightarrow> string \<Rightarrow> py_exn + handler" where
  "BaseHandler_init w path =
     (if path = [] then Inl (DocumentError_default ''Document path cannot be empty'')
      else
        let p = abspath w path
        in if \<not> isfile w p
           then Inl (DocumentError_default (''Document file not found: '' @ p))
           else if \<not> list_ex (endswith (lower p)) doc_extensions
           then Inl (DocumentError_default (''Unsupported document format: '' @ splitext_ext p))
           else (case load_document w p of
                   Inl e \<Rightarrow> Inl e
                 | Inr d \<Rightarrow> Inr \<lparr>doc_path = p, document = Some d\<rparr>))"

text \<open>
  The engine's indexers \<open>document.Sections[i]\<close> and \<open>section.Paragraphs[i]\<close>: out of
  range the engine raises, and \<open>None\<close> has no attribute \<open>Sections\<close>.
\<close>

definition list_item :: "'a list \<Rightarrow> int \<Rightarrow> py_exn + 'a" where
  "list_item xs i =
     (if 0 \<le> i \<and> i < int (length xs) then Inr (xs ! nat i)
      else Inl (PyException ''Index was out of range''))"

definition Sections_item :: "handler \<Rightarrow> int \<Rightarrow> py_exn + Section" where
  "Sections_item h i =
     (case document h of
        None \<Rightarrow> Inl (PyException ''NoneType object has no attribute Sections'')
      | Some d \<Rightarrow> list_item (Sections d) i)"

text \<open>
  \<open>BaseHandler._validate_section_index\<close>; \<open>None\<close> means the index is accepted. The
  index is an \<open>int\<close>, as the tool signatures declare it, so the \<open>isinstance\<close> check
  passes.
\<close>

definition validate_section_index :: "handler \<Rightarrow> int \<Rightarrow> py_exn option" where
  "validate_section_index h section_index =
     (if section_index < 0
      then Some (DocumentError_default
                   (''Section index cannot be negative: '' @ str_int section_index))
      else (case document h of
              None \<Rightarrow> Some (DocumentError_default ''Document not loaded'')
            | Some d \<Rightarrow>
                if section_index \<ge> int (length (Sections d))
                then Some (DocumentError_default
                             (''Section index '' @ str_int section_index
                              @ '' out of range (document has ''
                              @ str_int (int (length (Sections d))) @ '' sections)''))
                else None))"

text \<open>\<open>BaseHandler._validate_paragraph_index\<close>.\<close>

definition validate_paragraph_index :: "handler \<Rightarrow> int \<Rightarrow> int \<Rightarrow> py_exn option" where
  "validate_paragraph_index h paragraph_index section_index =
     (case validate_section_index h section_index of
        Some e \<Rightarrow> Some e
      | None \<Rightarrow>
          if paragraph_index < 0
          then Some (DocumentError_default
                       (''Paragraph index cannot be negative: '' @ str_int paragraph_index))
          else (case Sections_item h section_index of
                  Inl e \<Rightarrow> Some e
                | Inr section \<Rightarrow>
                    if paragraph_index \<ge> int (length (Paragraphs section))
                    then Some (DocumentError_default
                                 (''Paragraph index '' @ str_int paragraph_index
                                  @ '' out of range (section '' @ str_int section_index
                                  @ '' has '' @ str_int (int (length (Paragraphs section)))
                                  @ '' paragraphs)''))
                    else None))"

text \<open>\<open>self.document.SaveToFile(self.doc_path)\<close>.\<close>

definition save_document :: "world \<Rightarrow> handler \<Rightarrow> string option \<times> world" where
  "save_document w h =
     (case document h of
        None \<Rightarrow> (Some ''NoneType object has no attribute SaveToFile'', w)
      | Some d \<Rightarrow> SaveToFile w (doc_path h) d)"

text \<open>Replacing section \<open>i\<close> of the loaded document: the effect of a mutation made
  through the object \<open>self.document.Sections[i]\<close>.\<close>

definition update_section :: "handler \<Rightarrow> int \<Rightarrow> (Section \<Rightarrow> Section) \<Rightarrow> handler" where
  "update_section h i f =
     (case document h of
        None \<Rightarrow> h
      | Some d \<Rightarrow>
          if 0 \<le> i \<and> i < int (length (Sections d))
          then h\<lparr>document := Some (d\<lparr>Sections := (Sections d)[nat i := f (Sections d ! nat i)]\<rparr>)\<rparr>
          else h)"

section \<open>Paragraph operations: \<open>core/paragraph.py\<close>\<close>

text \<open>\<open>str(paragraph.Format.HorizontalAlignment)\<close>, the name of the enumeration member.\<close>

fun str_alignment :: "HorizontalAlignment \<Rightarrow> string" where
  "str_alignment Left = ''HorizontalAlignment.Left''"
| "str_alignment Center = ''HorizontalAlignment.Center''"
| "str_alignment Right = ''HorizontalAlignment.Right''"
| "str_alignment Justify = ''HorizontalAlignment.Justify''"
| "str_alignment Distribute = ''HorizontalAlignment.Distribute''"

text \<open>\<open>len(text.split('\n')) if text else 0\<close>.\<close>

definition line_count :: "string \<Rightarrow> int" where
  "line_count s = (if s = [] then 0 else int (length (split_on (CHR 0x0A) s)))"

text \<open>
  \<open>ParagraphHandler.get_paragraph_text\<close>. Every exception of the body, the validator's
  \<open>DocumentError\<close> included, leaves as a \<open>ParagraphError\<close>.
\<close>

definition ParagraphHandler_get_paragraph_text :: "handler \<Rightarrow> int \<Rightarrow> int \<Rightarrow> py_exn + dict" where
  "ParagraphHandler_get_paragraph_text h paragraph_index section_index =
     (case (case validate_paragraph_index h paragraph_index section_index of
              Some e \<Rightarrow> Inl e
            | None \<Rightarrow>
                (case Sections_item h section_index of
                   Inl e \<Rightarrow> Inl e
                 | Inr section \<Rightarrow>
                     (case list_item (Paragraphs section) paragraph_index of
                        Inl e \<Rightarrow> Inl e
                      | Inr paragraph \<Rightarrow>
                          Inr [(''section_index'', JInt section_index),
                               (''paragraph_index'', JInt paragraph_index),
                               (''text'', JStr (Text paragraph)),
                               (''text_length'', JInt (int (length (Text paragraph)))),
                               (''has_text'', JBool (has_text (Text paragraph))),
                               (''word_count'', JInt (word_count (Text paragraph))),
                               (''line_count'', JInt (line_count (Text paragraph)))]))) of
        Inl e \<Rightarrow> Inl (ParagraphError_default (''Failed to get paragraph text: '' @ str_exn e))
      | Inr result \<Rightarrow> Inr result)"

text \<open>\<open>ParagraphHandler.get_paragraphinfo\<close>.\<close>

definition ParagraphHandler_get_paragraphinfo :: "handler \<Rightarrow> int \<Rightarrow> int \<Rightarrow> py_exn + dict" where
  "ParagraphHandler_get_paragraphinfo h paragraph_index section_index =
     (case (case validate_paragraph_index h paragraph_index section_index of
              Some e \<Rightarrow> Inl e
            | None \<Rightarrow>
                (case Sections_item h section_index of
                   Inl e \<Rightarrow> Inl e
                 | Inr section \<Rightarrow>
                     (case list_item (Paragraphs section) paragraph_index of
                        Inl e \<Rightarrow> Inl e
                      | Inr paragraph \<Rightarrow>
                          Inr [(''section_index'', JInt section_index),
                               (''paragraph_index'', JInt paragraph_index),
                               (''text'', JStr (Text paragraph)),
                               (''text_length'', JInt (int (length (Text paragraph)))),
                               (''has_text'', JBool (has_text (Text paragraph))),
                               (''alignment'',
                                  JStr (str_alignment (HorizontalAlignment (Format paragraph)))),
                               (''style_name'', JStr (StyleName paragraph))]))) of
        Inl e \<Rightarrow> Inl (ParagraphError_default (''Failed to get paragraph info: '' @ str_exn e))
      | Inr result \<Rightarrow> Inr result)"

text \<open>\<open>collection.RemoveAt(i)\<close> on the list behind an engine collection.\<close>

definition remove_at :: "nat \<Rightarrow> 'a list \<Rightarrow> 'a list" where
  "remove_at i xs = take i xs @ drop (Suc i) xs"

text \<open>
  \<open>ParagraphHandler.delete_paragraph\<close>: the result or the exception, the handler and
  the file system afterwards. A mutation made before an exception stays in the
  handler's document.
\<close>

definition ParagraphHandler_delete_paragraph ::
  "world \<Rightarrow> handler \<Rightarrow> int \<Rightarrow> int \<Rightarrow> (py_exn + dict) \<times> handler \<times> world" where
  "ParagraphHandler_delete_paragraph w h paragraph_index section_index =
     (case (case validate_paragraph_index h paragraph_index section_index of
              Some e \<Rightarrow> (Inl e, h, w)
            | None \<Rightarrow>
                (case Sections_item h section_index of
                   Inl e \<Rightarrow> (Inl e, h, w)
                 | Inr section \<Rightarrow>
                     (case ParagraphHandler_get_paragraphinfo h paragraph_index section_index of
                        Inl e \<Rightarrow> (Inl e, h, w)
                      | Inr info \<Rightarrow>
                          (let h1 = update_section h section_index
                                      (\<lambda>s. s\<lparr>Paragraphs :=
                                             remove_at (nat paragraph_index) (Paragraphs s)\<rparr>)
                           in case save_document w h1 of
                                (Some msg, w1) \<Rightarrow> (Inl (PyException msg), h1, w1)
                              | (None, w1) \<Rightarrow>
                                  (case dict_item info ''text'' of
                                     Inl e \<Rightarrow> (Inl e, h1, w1)
                                   | Inr deleted_text \<Rightarrow>
                                       (Inr [(''section_index'', JInt section_index),
                                             (''paragraph_index'', JInt paragraph_index),
                                             (''deleted_text'', deleted_text)],
                                        h1, w1)))))) of
        (Inl e, h', w') \<Rightarrow>
          (Inl (ParagraphError_default (''Failed to delete paragraph: '' @ str_exn e)), h', w')
      | (Inr result, h', w') \<Rightarrow> (Inr result, h', w'))"

text \<open>\<open>len(section.Paragraphs)\<close> for section \<open>i\<close> of the loaded document.\<close>

definition paragraph_count :: "handler \<Rightarrow> int \<Rightarrow> int" where
  "paragraph_count h i =
     (case Sections_item h i of Inl e \<Rightarrow> 0 | Inr section \<Rightarrow> int (length (Paragraphs section)))"

text \<open>
  Modelled from the spec: the engine's \<open>section.Paragraphs.Insert(i, paragraph)\<close> for a
  paragraph that \<open>section.AddParagraph()\<close> has just put at the end of the section. The
  spec says of \<open>add_paragraph\<close> that "the new paragraph is created then moved to that
  position": the last paragraph is taken out and put at index \<open>i\<close>.
\<close>

definition move_last_to :: "nat \<Rightarrow> 'a list \<Rightarrow> 'a list" where
  "move_last_to i xs =
     (if xs = [] then [] else take i (butlast xs) @ [last xs] @ drop i (butlast xs))"

text \<open>\<open>paragraph.Text = text\<close> for the paragraph at index \<open>i\<close> of a section.\<close>

definition set_text_at :: "nat \<Rightarrow> string \<Rightarrow> Section \<Rightarrow> Section" where
  "set_text_at i t s =
     (if i < length (Paragraphs s)
      then s\<lparr>Paragraphs := (Paragraphs s)[i := (Paragraphs s ! i)\<lparr>Text := t\<rparr>]\<rparr>
      else s)"

text \<open>\<open>ParagraphHandler.add_paragraph\<close>; \<open>paragraph_index\<close> is \<open>None\<close> or an index.\<close>

definition ParagraphHandler_add_paragraph ::
  "world \<Rightarrow> handler \<Rightarrow> string \<Rightarrow> int \<Rightarrow> int option \<Rightarrow> (py_exn + dict) \<times> handler \<times> world" where
  "ParagraphHandler_add_paragraph w h text section_index paragraph_index =
     (case (case validate_section_index h section_index of
              Some e \<Rightarrow> (Inl e, h, w)
            | None \<Rightarrow>
                (case Sections_item h section_index of
                   Inl e \<Rightarrow> (Inl e, h, w)
                 | Inr section \<Rightarrow>
                     (case (case paragraph_index of
                              None \<Rightarrow> None
                            | Some i \<Rightarrow>
                                if i < 0 \<or> i > int (length (Paragraphs section))
                                then Some (ParagraphError_default
                                             (''Invalid paragraph index: '' @ str_int i))
                                else None) of
                        Some e \<Rightarrow> (Inl e, h, w)
                      | None \<Rightarrow>
                          (let h1 = update_section h section_index
                                      (\<lambda>s. s\<lparr>Paragraphs := Paragraphs s @ [new_paragraph w]\<rparr>);
                               (h2, actual_index) =
                                 (case paragraph_index of
                                    Some i \<Rightarrow>
                                      (update_section h1 section_index
                                         (\<lambda>s. s\<lparr>Paragraphs := move_last_to (nat i) (Paragraphs s)\<rparr>),
                                       i)
                                  | None \<Rightarrow> (h1, paragraph_count h1 section_index - 1));
                               h3 = update_section h2 section_index
                                      (set_text_at (nat actual_index) text)
                           in case save_document w h3 of
                                (Some msg, w1) \<Rightarrow> (Inl (PyException msg), h3, w1)
                              | (None, w1) \<Rightarrow>
                                  (Inr [(''section_index'', JInt section_index),
                                        (''paragraph_index'', JInt actual_index),
                                        (''text'', JStr text),
                                        (''text_length'', JInt (int (length text))),
                                        (''word_count'', JInt (word_count text)),
                                        (''total_paragraphs_in_section'',
                                           JInt (paragraph_count h3 section_index))],
                                   h3, w1))))) of
        (Inl e, h', w') \<Rightarrow>
          (Inl (ParagraphError_default (''Failed to add paragraph: '' @ str_exn e)), h', w')
      | (Inr result, h', w') \<Rightarrow> (Inr result, h', w'))"

section \<open>Paragraph formatting: \<open>core/format.py\<close>\<close>

text \<open>The optional arguments of \<open>format_paragraph\<close>; \<open>None\<close> is "not supplied".\<close>

record format_args =
  alignment :: "string option"
  first_line_indent :: "pyval option"
  left_indent :: "pyval option"
  right_indent :: "pyval option"
  line_spacing :: "pyval option"
  line_spacing_rule :: "string option"
  before_spacing :: "pyval option"
  after_spacing :: "pyval option"

definition valid_alignments :: "string list" where
  "valid_alignments = [''left'', ''center'', ''right'', ''justify'']"

definition valid_rules :: "string list" where
  "valid_rules = [''at_least'', ''exactly'', ''multiple'']"

definition numeric_params :: "string list" where
  "numeric_params =
     [''first_line_indent'', ''left_indent'', ''right_indent'', ''line_spacing'',
      ''before_spacing'', ''after_spacing'']"

text \<open>\<open>kwargs.get(param)\<close>: \<open>None\<close> for a missing key and for a key bound to \<open>None\<close>.\<close>

definition kwargs_get :: "(string \<times> pyval option) list \<Rightarrow> string \<Rightarrow> pyval option" where
  "kwargs_get kwargs param = (case map_of kwargs param of None \<Rightarrow> None | Some v \<Rightarrow> v)"

text \<open>The loop over \<open>numeric_params\<close>: the first offending parameter raises.\<close>

fun validate_numeric :: "(string \<times> pyval option) list \<Rightarrow> string list \<Rightarrow> py_exn option" where
  "validate_numeric kwargs [] = None"
| "validate_numeric kwargs (param # params) =
     (case kwargs_get kwargs param of
        None \<Rightarrow> validate_numeric kwargs params
      | Some v \<Rightarrow>
          if \<not> is_number v
          then Some (DocumentError_default (param @ '' must be a number, got '' @ type_repr v))
          else if is_negative v
          then Some (DocumentError_default (param @ '' cannot be negative: '' @ str_pyval v))
          else validate_numeric kwargs params)"

text \<open>\<open>FormatHandler._validate_formatting_parameters\<close>; \<open>None\<close> means accepted.\<close>

definition validate_formatting_parameters ::
  "string option \<Rightarrow> string option \<Rightarrow> (string \<times> pyval option) list \<Rightarrow> py_exn option" where
  "validate_formatting_parameters alignment_arg rule_arg kwargs =
     (if (case alignment_arg of None \<Rightarrow> False | Some a \<Rightarrow> lower a \<notin> set valid_alignments)
      then Some (DocumentError_default
                   (''Invalid alignment: '' @ (case alignment_arg of None \<Rightarrow> [] | Some a \<Rightarrow> a)
                    @ ''. Valid values: '' @ join_with '', '' valid_alignments))
      else if (case rule_arg of None \<Rightarrow> False | Some r \<Rightarrow> lower r \<notin> set valid_rules)
      then Some (DocumentError_default
                   (''Invalid line spacing rule: '' @ (case rule_arg of None \<Rightarrow> [] | Some r \<Rightarrow> r)
                    @ ''. Valid values: '' @ join_with '', '' valid_rules))
      else validate_numeric kwargs numeric_params)"

fun str_rule :: "LineSpacingRule \<Rightarrow> string" where
  "str_rule AtLeast = ''LineSpacingRule.AtLeast''"
| "str_rule Exactly = ''LineSpacingRule.Exactly''"
| "str_rule Multiple = ''LineSpacingRule.Multiple''"

text \<open>The dictionary of the eight formatting properties of a paragraph.\<close>

definition formatting_dict :: "ParagraphFormat \<Rightarrow> dict" where
  "formatting_dict f =
     [(''alignment'', JStr (str_alignment (HorizontalAlignment f))),
      (''first_line_indent'', JNum (FirstLineIndent f)),
      (''left_indent'', JNum (LeftIndent f)),
      (''right_indent'', JNum (RightIndent f)),
      (''line_spacing'', JNum (LineSpacing f)),
      (''line_spacing_rule'', JStr (str_rule (LineSpacingRule f))),
      (''before_spacing'', JNum (BeforeSpacing f)),
      (''after_spacing'', JNum (AfterSpacing f))]"

definition alignment_map :: "(string \<times> HorizontalAlignment) list" where
  "alignment_map =
     [(''left'', Left), (''center'', Center), (''right'', Right), (''justify'', Justify)]"

definition rule_map :: "(string \<times> LineSpacingRule) list" where
  "rule_map = [(''at_least'', AtLeast), (''exactly'', Exactly), (''multiple'', Multiple)]"

text \<open>
  The assignments of \<open>format_paragraph\<close> in the source's order, on the format of the
  paragraph: a missing key of \<open>alignment_map\<close> or \<open>rule_map\<close> raises \<open>KeyError\<close> and
  keeps what was assigned before. The rule is assigned only when \<open>line_spacing\<close> is
  supplied too.
\<close>

definition assign :: "pyval option \<Rightarrow> rat \<Rightarrow> rat" where
  "assign arg old = (case arg of None \<Rightarrow> old | Some v \<Rightarrow> number_value v)"

definition apply_formatting :: "format_args \<Rightarrow> ParagraphFormat \<Rightarrow> py_exn option \<times> ParagraphFormat" where
  "apply_formatting a f =
     (case (case alignment a of
              None \<Rightarrow> Inr f
            | Some al \<Rightarrow>
                (case map_of alignment_map (lower al) of
                   None \<Rightarrow> Inl (PyException (CHR 0x27 # lower al @ [CHR 0x27]))
                 | Some v \<Rightarrow> Inr (f\<lparr>HorizontalAlignment := v\<rparr>))) of
        Inl e \<Rightarrow> (Some e, f)
      | Inr f1 \<Rightarrow>
          (let f2 = f1\<lparr>FirstLineIndent := assign (first_line_indent a) (FirstLineIndent f1),
                       LeftIndent := assign (left_indent a) (LeftIndent f1),
                       RightIndent := assign (right_indent a) (RightIndent f1),
                       LineSpacing := assign (line_spacing a) (LineSpacing f1)\<rparr>
           in case (if line_spacing a \<noteq> None
                    then (case line_spacing_rule a of
                            None \<Rightarrow> Inr f2
                          | Some r \<Rightarrow>
                              (case map_of rule_map (lower r) of
                                 None \<Rightarrow> Inl (PyException (CHR 0x27 # lower r @ [CHR 0x27]))
                               | Some v \<Rightarrow> Inr (f2\<lparr>LineSpacingRule := v\<rparr>)))
                    else Inr f2) of
                Inl e \<Rightarrow> (Some e, f2)
              | Inr f3 \<Rightarrow>
                  (None, f3\<lparr>BeforeSpacing := assign (before_spacing a) (BeforeSpacing f3),
                             AfterSpacing := assign (after_spacing a) (AfterSpacing f3)\<rparr>)))"

text \<open>Replacing the format of the paragraph at index \<open>i\<close> of a section.\<close>

definition set_format_at :: "nat \<Rightarrow> ParagraphFormat \<Rightarrow> Section \<Rightarrow> Section" where
  "set_format_at i f s =
     (if i < length (Paragraphs s)
      then s\<lparr>Paragraphs := (Paragraphs s)[i := (Paragraphs s ! i)\<lparr>Format := f\<rparr>]\<rparr>
      else s)"

definition changes_applied :: "format_args \<Rightarrow> dict" where
  "changes_applied a =
     [(''alignment'', JBool (alignment a \<noteq> None)),
      (''first_line_indent'', JBool (first_line_indent a \<noteq> None)),
      (''left_indent'', JBool (left_indent a \<noteq> None)),
      (''right_indent'', JBool (right_indent a \<noteq> None)),
      (''line_spacing'', JBool (line_spacing a \<noteq> None)),
      (''line_spacing_rule'', JBool (line_spacing_rule a \<noteq> None)),
      (''before_spacing'', JBool (before_spacing a \<noteq> None)),
      (''after_spacing'', JBool (after_spacing a \<noteq> None))]"

text \<open>
  \<open>FormatHandler.format_paragraph\<close>, always on section 0: validate the index, validate
  all parameters, read the format, assign, save, read the format again. A
  \<open>DocumentError\<close> leaves as it is; any other exception is wrapped in one.
\<close>

definition FormatHandler_format_paragraph ::
  "world \<Rightarrow> handler \<Rightarrow> int \<Rightarrow> format_args \<Rightarrow> (py_exn + dict) \<times> handler \<times> world" where
  "FormatHandler_format_paragraph w h paragraph_index a =
     (case (case validate_paragraph_index h paragraph_index 0 of
              Some e \<Rightarrow> (Inl e, h, w)
            | None \<Rightarrow>
                (case validate_formatting_parameters (alignment a) (line_spacing_rule a)
                        [(''first_line_indent'', first_line_indent a),
                         (''left_indent'', left_indent a),
                         (''right_indent'', right_indent a),
                         (''line_spacing'', line_spacing a),
                         (''before_spacing'', before_spacing a),
                         (''after_spacing'', after_spacing a)] of
                   Some e \<Rightarrow> (Inl e, h, w)
                 | None \<Rightarrow>
                     (case Sections_item h 0 of
                        Inl e \<Rightarrow> (Inl e, h, w)
                      | Inr section \<Rightarrow>
                          (case list_item (Paragraphs section) paragraph_index of
                             Inl e \<Rightarrow> (Inl e, h, w)
                           | Inr paragraph \<Rightarrow>
                               (let original_formatting = formatting_dict (Format paragraph);
                                    (err, f) = apply_formatting a (Format paragraph);
                                    h1 = update_section h 0 (set_format_at (nat paragraph_index) f)
                                in case err of
                                     Some e \<Rightarrow> (Inl e, h1, w)
                                   | None \<Rightarrow>
                                       (case save_document w h1 of
                                          (Some msg, w1) \<Rightarrow>
                                            (Inl (DocumentError_default
                                                    (''Failed to save document: '' @ msg)), h1, w1)
                                        | (None, w1) \<Rightarrow>
                                            (Inr [(''success'', JBool True),
                                                  (''message'',
                                                     JStr (''Formatting applied to paragraph ''
                                                           @ str_int paragraph_index)),
                                                  (''paragraph_index'', JInt paragraph_index),
                                                  (''document_path'', JStr (doc_path h)),
                                                  (''original_formatting'', JDict original_formatting),
                                                  (''current_formatting'', JDict (formatting_dict f)),
                                                  (''changes_applied'', JDict (changes_applied a))],
                                             h1, w1))))))) of
        (Inl e, h', w') \<Rightarrow>
          (if is_DocumentError e then Inl e
           else Inl (DocumentError_default (''Failed to format paragraph: '' @ str_exn e)),
           h', w')
      | (Inr result, h', w') \<Rightarrow> (Inr result, h', w'))"

text \<open>\<open>FormatHandler.get_paragraph_format\<close>.\<close>

definition FormatHandler_get_paragraph_format :: "handler \<Rightarrow> int \<Rightarrow> py_exn + dict" where
  "FormatHandler_get_paragraph_format h paragraph_index =
     (case (case validate_paragraph_index h paragraph_index 0 of
              Some e \<Rightarrow> Inl e
            | None \<Rightarrow>
                (case Sections_item h 0 of
                   Inl e \<Rightarrow> Inl e
                 | Inr section \<Rightarrow>
                     (case list_item (Paragraphs section) paragraph_index of
                        Inl e \<Rightarrow> Inl e
                      | Inr paragraph \<Rightarrow>
                          Inr [(''success'', JBool True),
                               (''message'',
                                  JStr (''Retrieved formatting for paragraph ''
                                        @ str_int paragraph_index)),
                               (''paragraph_index'', JInt paragraph_index),
                               (''document_path'', JStr (doc_path h)),
                               (''formatting'', JDict (formatting_dict (Format paragraph)))]))) of
        Inl e \<Rightarrow>
          if is_DocumentError e then Inl e
          else Inl (DocumentError_default (''Failed to get paragraph format: '' @ str_exn e))
      | Inr result \<Rightarrow> Inr result)"

section \<open>Table operations: \<open>core/table.py\<close>\<close>

text \<open>\<open>d[k]\<close> where the value is used as an integer.\<close>

definition dict_int :: "dict \<Rightarrow> string \<Rightarrow> py_exn + int" where
  "dict_int d k =
     (case dict_item d k of
        Inl e \<Rightarrow> Inl e
      | Inr (JInt n) \<Rightarrow> Inr n
      | Inr v \<Rightarrow> Inl (PyException ''not supported between instances''))"

text \<open>\<open>table.Rows[0].Cells.Count if table.Rows.Count > 0 else 0\<close>.\<close>

definition column_count :: "Table \<Rightarrow> int" where
  "column_count t = (case Rows t of [] \<Rightarrow> 0 | r # rs \<Rightarrow> int (length (Cells r)))"

text \<open>
  \<open>TableHandler.get_table_info\<close>. A \<open>TableError\<close> leaves as it is, any other exception
  (the section validator's \<open>DocumentError\<close> too) is wrapped in one.
\<close>

definition TableHandler_get_table_info :: "handler \<Rightarrow> int \<Rightarrow> int \<Rightarrow> py_exn + dict" where
  "TableHandler_get_table_info h table_index section_index =
     (case (case validate_section_index h section_index of
              Some e \<Rightarrow> Inl e
            | None \<Rightarrow>
                (case Sections_item h section_index of
                   Inl e \<Rightarrow> Inl e
                 | Inr section \<Rightarrow>
                     if table_index < 0 \<or> table_index \<ge> int (length (Tables section))
                     then Inl (TableError (''Invalid table index: '' @ str_int table_index)
                                 ''TABLE_INFO_ERROR'')
                     else (case list_item (Tables section) table_index of
                             Inl e \<Rightarrow> Inl e
                           | Inr table \<Rightarrow>
                               Inr [(''table_index'', JInt table_index),
                                    (''section_index'', JInt section_index),
                                    (''rows'', JInt (int (length (Rows table)))),
                                    (''columns'', JInt (column_count table)),
                                    (''total_cells'',
                                       JInt (int (length (Rows table)) * column_count table))]))) of
        Inl e \<Rightarrow>
          if is_TableError e then Inl e
          else Inl (TableError (''Failed to get table info: '' @ str_exn e) ''TABLE_INFO_ERROR'')
      | Inr result \<Rightarrow> Inr result)"

text \<open>\<open>table.ResetCells(rows, columns)\<close> on a new table.\<close>

definition new_table :: "world \<Rightarrow> int \<Rightarrow> int \<Rightarrow> Table" where
  "new_table w rows columns =
     \<lparr>Rows = replicate (nat rows) \<lparr>Cells = replicate (nat columns) (new_cell w)\<rparr>,
      Table_Style = None\<rparr>"

text \<open>\<open>collection.Insert(i, x)\<close> on the list behind an engine collection.\<close>

definition insert_at :: "nat \<Rightarrow> 'a \<Rightarrow> 'a list \<Rightarrow> 'a list" where
  "insert_at i x xs = take i xs @ [x] @ drop i xs"

text \<open>\<open>len(section.Tables)\<close> for section \<open>i\<close> of the loaded document.\<close>

definition table_count :: "handler \<Rightarrow> int \<Rightarrow> int" where
  "table_count h i =
     (case Sections_item h i of Inl e \<Rightarrow> 0 | Inr section \<Rightarrow> int (length (Tables section)))"

text \<open>\<open>table.ApplyStyle(style)\<close> for the table at index \<open>i\<close> of a section.\<close>

definition set_style_at :: "nat \<Rightarrow> string \<Rightarrow> Section \<Rightarrow> Section" where
  "set_style_at i style s =
     (if i < length (Tables s)
      then s\<lparr>Tables := (Tables s)[i := (Tables s ! i)\<lparr>Table_Style := Some style\<rparr>]\<rparr>
      else s)"

text \<open>
  \<open>TableHandler.create_table\<close>. With a paragraph index, \<open>section.AddTable(True)\<close>
  is taken as the source's comment has it ("create object only, don't insert"): the
  table is not in \<open>section.Tables\<close> until \<open>Insert\<close> puts it at
  \<open>min(paragraph_index + 1, len(section.Tables))\<close>. Without one,
  \<open>section.AddTable()\<close> appends the table. An exception of \<open>ApplyStyle\<close> is
  swallowed. The returned \<open>table_index\<close> is \<open>len(section.Tables) - 1\<close> in both cases.
\<close>

definition TableHandler_create_table ::
  "world \<Rightarrow> handler \<Rightarrow> int \<Rightarrow> int \<Rightarrow> int \<Rightarrow> int option \<Rightarrow> string option
     \<Rightarrow> (py_exn + dict) \<times> handler \<times> world" where
  "TableHandler_create_table w h rows columns section_index paragraph_index style =
     (case (case validate_section_index h section_index of
              Some e \<Rightarrow> (Inl e, h, w)
            | None \<Rightarrow>
                (case Sections_item h section_index of
                   Inl e \<Rightarrow> (Inl e, h, w)
                 | Inr section \<Rightarrow>
                     (case (case paragraph_index of
                              None \<Rightarrow> None
                            | Some p \<Rightarrow> validate_paragraph_index h p section_index) of
                        Some e \<Rightarrow> (Inl e, h, w)
                      | None \<Rightarrow>
                          if rows \<le> 0 \<or> columns \<le> 0
                          then (Inl (TableError ''Table dimensions must be positive''
                                       ''TABLE_CREATE_ERROR''), h, w)
                          else if rows > 1000 \<or> columns > 100
                          then (Inl (TableError
                                       ''Table dimensions too large (max: 1000 rows, 100 columns)''
                                       ''TABLE_CREATE_ERROR''), h, w)
                          else
                            (let table = new_table w rows columns;
                                 position =
                                   (case paragraph_index of
                                      Some p \<Rightarrow> nat (min (p + 1) (int (length (Tables section))))
                                    | None \<Rightarrow> length (Tables section));
                                 h1 = update_section h section_index
                                        (\<lambda>s. s\<lparr>Tables := insert_at position table (Tables s)\<rparr>);
                                 h2 = (case style of
                                         None \<Rightarrow> h1
                                       | Some st \<Rightarrow>
                                           if st = [] then h1
                                           else (case style_error w st of
                                                   Some msg \<Rightarrow> h1
                                                 | None \<Rightarrow>
                                                     update_section h1 section_index
                                                       (set_style_at position st)));
                                 table_index = table_count h2 section_index - 1
                             in case save_document w h2 of
                                  (Some msg, w1) \<Rightarrow> (Inl (PyException msg), h2, w1)
                                | (None, w1) \<Rightarrow>
                                    (Inr [(''success'', JBool True),
                                          (''message'', JStr ''Table created successfully''),
                                          (''table_index'', JInt table_index),
                                          (''section_index'', JInt section_index),
                                          (''paragraph_index'',
                                             (case paragraph_index of
                                                None \<Rightarrow> JNone | Some p \<Rightarrow> JInt p)),
                                          (''dimensions'',
                                             JDict [(''rows'', JInt rows),
                                                    (''columns'', JInt columns)]),
                                          (''style'',
                                             (case style of None \<Rightarrow> JNone | Some st \<Rightarrow> JStr st)),
                                          (''total_tables_in_section'',
                                             JInt (table_count h2 section_index))],
                                     h2, w1))))) of
        (Inl e, h', w') \<Rightarrow>
          (if is_TableError e then Inl e
           else Inl (TableError (''Failed to create table: '' @ str_exn e) ''TABLE_CREATE_ERROR''),
           h', w')
      | (Inr result, h', w') \<Rightarrow> (Inr result, h', w'))"

text \<open>
  The text assignment of \<open>set_cell_text\<close> on a cell: the first paragraph gets the
  text, or a new paragraph is added and gets it. The original text comes with it.
\<close>

definition set_cell :: "world \<Rightarrow> string \<Rightarrow> TableCell \<Rightarrow> string \<times> TableCell" where
  "set_cell w t c =
     (case Cell_Paragraphs c of
        [] \<Rightarrow> ([], c\<lparr>Cell_Paragraphs := [(new_paragraph w)\<lparr>Text := t\<rparr>]\<rparr>)
      | p # ps \<Rightarrow> (Text p, c\<lparr>Cell_Paragraphs := p\<lparr>Text := t\<rparr> # ps\<rparr>))"

text \<open>Replacing the cell at \<open>(row, column)\<close> of table \<open>i\<close> of a section.\<close>

definition update_cell :: "nat \<Rightarrow> nat \<Rightarrow> nat \<Rightarrow> TableCell \<Rightarrow> Section \<Rightarrow> Section" where
  "update_cell i row column c s =
     (if i < length (Tables s) \<and> row < length (Rows (Tables s ! i))
         \<and> column < length (Cells (Rows (Tables s ! i) ! row))
      then s\<lparr>Tables := (Tables s)[i := (Tables s ! i)
              \<lparr>Rows := (Rows (Tables s ! i))[row := (Rows (Tables s ! i) ! row)
                 \<lparr>Cells := (Cells (Rows (Tables s ! i) ! row))[column := c]\<rparr>]\<rparr>]\<rparr>
      else s)"

text \<open>
  \<open>TableHandler.set_cell_text\<close>: the extent comes from \<open>get_table_info\<close> (rows from the
  row count, columns from row 0), then the cell is fetched through the indexers, which
  raise in a row shorter than row 0.
\<close>

definition TableHandler_set_cell_text ::
  "world \<Rightarrow> handler \<Rightarrow> int \<Rightarrow> int \<Rightarrow> int \<Rightarrow> string \<Rightarrow> int
     \<Rightarrow> (py_exn + dict) \<times> handler \<times> world" where
  "TableHandler_set_cell_text w h table_index row column text section_index =
     (case (case TableHandler_get_table_info h table_index section_index of
              Inl e \<Rightarrow> (Inl e, h, w)
            | Inr table_info \<Rightarrow>
                (case dict_int table_info ''rows'' of
                   Inl e \<Rightarrow> (Inl e, h, w)
                 | Inr n_rows \<Rightarrow>
                     if row < 0 \<or> row \<ge> n_rows
                     then (Inl (TableError (''Invalid row index: '' @ str_int row)
                                  ''TABLE_CELL_ERROR''), h, w)
                     else
                       (case dict_int table_info ''columns'' of
                          Inl e \<Rightarrow> (Inl e, h, w)
                        | Inr n_columns \<Rightarrow>
                            if column < 0 \<or> column \<ge> n_columns
                            then (Inl (TableError (''Invalid column index: '' @ str_int column)
                                         ''TABLE_CELL_ERROR''), h, w)
                            else
                              (case Sections_item h section_index of
                                 Inl e \<Rightarrow> (Inl e, h, w)
                               | Inr section \<Rightarrow>
                                   (case list_item (Tables section) table_index of
                                      Inl e \<Rightarrow> (Inl e, h, w)
                                    | Inr table \<Rightarrow>
                                        (case list_item (Rows table) row of
                                           Inl e \<Rightarrow> (Inl e, h, w)
                                         | Inr row_obj \<Rightarrow>
                                             (case list_item (Cells row_obj) column of
                                                Inl e \<Rightarrow> (Inl e, h, w)
                                              | Inr cell \<Rightarrow>
                                                  (let (original_text, cell1) = set_cell w text cell;
                                                       h1 = update_section h section_index
                                                              (update_cell (nat table_index) (nat row)
                                                                 (nat column) cell1)
                                                   in case save_document w h1 of
                                                        (Some msg, w1) \<Rightarrow>
                                                          (Inl (PyException msg), h1, w1)
                                                      | (None, w1) \<Rightarrow>
                                                          (Inr [(''section_index'', JInt section_index),
                                                                (''table_index'', JInt table_index),
                                                                (''row'', JInt row),
                                                                (''column'', JInt column),
                                                                (''original_text'', JStr original_text),
                                                                (''new_text'', JStr text)],
                                                           h1, w1))))))))) of
        (Inl e, h', w') \<Rightarrow>
          (if is_TableError e then Inl e
           else Inl (TableError (''Failed to set cell text: '' @ str_exn e) ''TABLE_CELL_ERROR''),
           h', w')
      | (Inr result, h', w') \<Rightarrow> (Inr result, h', w'))"

section \<open>Conversion: \<open>core/conversion.py\<close>\<close>











section \<open>Find and replace: \<open>core/document.py\<close>\<close>

text \<open>
  \<open>DocumentHandler.__init__\<close>: with \<open>create_if_not_exists\<close> and no file at the path,
  only the path and its extension are checked and no document is loaded.
\<close>

definition DocumentHandler_init :: "world \<Rightarrow> string \<Rightarrow> bool \<Rightarrow> py_exn + handler" where
  "DocumentHandler_init w path create_if_not_exists =
     (if create_if_not_exists \<and> \<not> isfile w path
      then (if path = [] then Inl (DocumentError_default ''Document path cannot be empty'')
            else
              let p = abspath w path
              in if \<not> list_ex (endswith (lower p)) doc_extensions
                 then Inl (DocumentError_default
                             (''Unsupported document format: '' @ splitext_ext p))
                 else Inr \<lparr>doc_path = p, document = None\<rparr>)
      else BaseHandler_init w path)"

text \<open>
  \<open>DocumentHandler.find_and_replace\<close>. The replacement itself is the engine's; the
  result reports \<open>replacements: 1\<close> whatever the engine did.
\<close>

definition DocumentHandler_find_and_replace ::
  "world \<Rightarrow> handler \<Rightarrow> string \<Rightarrow> string \<Rightarrow> bool \<Rightarrow> bool \<Rightarrow> (py_exn + dict) \<times> handler \<times> world" where
  "DocumentHandler_find_and_replace w h find_text replace_text match_case match_whole_word =
     (case (case document h of
              None \<Rightarrow> (Inl (DocumentError_default ''Document not loaded''), h, w)
            | Some d \<Rightarrow>
                if find_text = []
                then (Inl (DocumentError_default ''Find text cannot be empty''), h, w)
                else (case engine_replace w d find_text replace_text match_case match_whole_word of
                        Inl msg \<Rightarrow> (Inl (PyException msg), h, w)
                      | Inr d1 \<Rightarrow>
                          (let h1 = h\<lparr>document := Some d1\<rparr>
                           in case save_document w h1 of
                                (Some msg, w1) \<Rightarrow> (Inl (PyException msg), h1, w1)
                              | (None, w1) \<Rightarrow>
                                  (Inr [(''success'', JBool True),
                                        (''message'', JStr ''Text replacement completed successfully''),
                                        (''replacements'', JInt 1),
                                        (''search_params'',
                                           JDict [(''find_text'', JStr find_text),
                                                  (''replace_text'', JStr replace_text),
                                                  (''match_case'', JBool match_case),
                                                  (''match_whole_word'', JBool match_whole_word)])],
                                   h1, w1)))) of
        (Inl e, h', w') \<Rightarrow>
          (Inl (DocumentError_default (''Failed to replace text: '' @ str_exn e)), h', w')
      | (Inr result, h', w') \<Rightarrow> (Inr result, h', w'))"

section \<open>The tool functions: \<open>api/*.py\<close>\<close>

text \<open>
  Every tool function has one shape: a \<open>try\<close> that resolves the path, builds a handler,
  calls one method and wraps the result in a success envelope, and one \<open>except\<close>
  clause for a single exception class that builds the error envelope. An exception of
  another class is not caught and leaves the tool function (\<open>Inl\<close>).
\<close>

definition tool_result ::
  "(py_exn \<Rightarrow> bool) \<Rightarrow> string \<Rightarrow> string \<Rightarrow> string \<Rightarrow> string \<Rightarrow> (py_exn + dict) \<times> world
     \<Rightarrow> (py_exn + dict envelope) \<times> world" where
  "tool_result caught message code type_name suggestion r =
     (case r of
        (Inr data, w) \<Rightarrow> (Inr (Success message data), w)
      | (Inl e, w) \<Rightarrow>
          if caught e
          then (Inr (Failure (str_exn e)
                       \<lparr>err_code = code, err_type = type_name,
                        err_details = DetailsText (str_exn e),
                        err_suggestion = suggestion\<rparr>), w)
          else (Inl e, w))"

text \<open>
  \<open>doc_path = get_doc_path(...); handler = Handler(doc_path); result = method(handler)\<close>
  for the handlers built by \<open>BaseHandler.__init__\<close>. The handler is dropped after the
  call; what stays is the file system.
\<close>

definition with_handler ::
  "world \<Rightarrow> string \<Rightarrow> string \<Rightarrow> (world \<Rightarrow> handler \<Rightarrow> (py_exn + dict) \<times> handler \<times> world)
     \<Rightarrow> (py_exn + dict) \<times> world" where
  "with_handler w document_name doc_files_path method =
     (case get_doc_path w document_name (Some doc_files_path) of
        (Inl e, w1) \<Rightarrow> (Inl e, w1)
      | (Inr path, w1) \<Rightarrow>
          (case BaseHandler_init w1 path of
             Inl e \<Rightarrow> (Inl e, w1)
           | Inr h \<Rightarrow> (case method w1 h of (r, h', w2) \<Rightarrow> (r, w2))))"

subsection \<open>\<open>api/paragraph_tools.py\<close>: only \<open>ParagraphError\<close> is caught\<close>

definition paragraph_tools_get_paragraph_text ::
  "world \<Rightarrow> string \<Rightarrow> int \<Rightarrow> int \<Rightarrow> string \<Rightarrow> (py_exn + dict envelope) \<times> world" where
  "paragraph_tools_get_paragraph_text w document_name paragraph_index section_index doc_files_path =
     tool_result is_ParagraphError ''Paragraph text retrieved successfully''
       ''PARAGRAPH_TEXT_ERROR'' ''ParagraphError''
       ''Please check if the paragraph index and section index are valid.''
       (with_handler w document_name doc_files_path
          (\<lambda>w1 h. (ParagraphHandler_get_paragraph_text h paragraph_index section_index, h, w1)))"

definition paragraph_tools_delete_paragraph ::
  "world \<Rightarrow> string \<Rightarrow> int \<Rightarrow> int \<Rightarrow> string \<Rightarrow> (py_exn + dict envelope) \<times> world" where
  "paragraph_tools_delete_paragraph w document_name paragraph_index section_index doc_files_path =
     tool_result is_ParagraphError ''Paragraph deleted successfully''
       ''PARAGRAPH_DELETE_ERROR'' ''ParagraphError''
       ''Please check if the paragraph index and section index are valid.''
       (with_handler w document_name doc_files_path
          (\<lambda>w1 h. ParagraphHandler_delete_paragraph w1 h paragraph_index section_index))"

definition paragraph_tools_add_paragraph ::
  "world \<Rightarrow> string \<Rightarrow> string \<Rightarrow> int \<Rightarrow> int option \<Rightarrow> string
     \<Rightarrow> (py_exn + dict envelope) \<times> world" where
  "paragraph_tools_add_paragraph w document_name text section_index paragraph_index doc_files_path =
     tool_result is_ParagraphError ''Paragraph added successfully''
       ''PARAGRAPH_ADD_ERROR'' ''ParagraphError''
       ''Please check if the section index and paragraph index are valid.''
       (with_handler w document_name doc_files_path
          (\<lambda>w1 h. ParagraphHandler_add_paragraph w1 h text section_index paragraph_index))"

subsection \<open>\<open>api/format_tools.py\<close>: only \<open>DocumentError\<close> is caught\<close>

definition format_tools_format_paragraph ::
  "world \<Rightarrow> string \<Rightarrow> int \<Rightarrow> format_args \<Rightarrow> string \<Rightarrow> (py_exn + dict envelope) \<times> world" where
  "format_tools_format_paragraph w document_name paragraph_index a doc_files_path =
     tool_result is_DocumentError ''Paragraph formatting applied successfully''
       ''FORMAT_ERROR'' ''DocumentError''
       ''Please check if the paragraph index is valid and the formatting parameters are correct.''
       (with_handler w document_name doc_files_path
          (\<lambda>w1 h. FormatHandler_format_paragraph w1 h paragraph_index a))"

definition format_tools_get_paragraph_format ::
  "world \<Rightarrow> string \<Rightarrow> int \<Rightarrow> string \<Rightarrow> (py_exn + dict envelope) \<times> world" where
  "format_tools_get_paragraph_format w document_name paragraph_index doc_files_path =
     tool_result is_DocumentError ''Paragraph formatting retrieved successfully''
       ''FORMAT_INFO_ERROR'' ''DocumentError''
       ''Please check if the paragraph index is valid.''
       (with_handler w document_name doc_files_path
          (\<lambda>w1 h. (FormatHandler_get_paragraph_format h paragraph_index, h, w1)))"

subsection \<open>\<open>api/table_tools.py\<close>: only \<open>TableError\<close> is caught\<close>

definition table_tools_create_table ::
  "world \<Rightarrow> string \<Rightarrow> int \<Rightarrow> int \<Rightarrow> int \<Rightarrow> int option \<Rightarrow> string option \<Rightarrow> string
     \<Rightarrow> (py_exn + dict envelope) \<times> world" where
  "table_tools_create_table w document_name rows columns section_index paragraph_index style
       doc_files_path =
     tool_result is_TableError ''Table created successfully''
       ''TABLE_CREATE_ERROR'' ''TableError''
       ''Please check if the table dimensions and section/paragraph indices are valid.''
       (with_handler w document_name doc_files_path
          (\<lambda>w1 h. TableHandler_create_table w1 h rows columns section_index paragraph_index style))"

definition table_tools_set_cell_text ::
  "world \<Rightarrow> string \<Rightarrow> int \<Rightarrow> int \<Rightarrow> int \<Rightarrow> string \<Rightarrow> int \<Rightarrow> string
     \<Rightarrow> (py_exn + dict envelope) \<times> world" where
  "table_tools_set_cell_text w document_name table_index row column text section_index
       doc_files_path =
     tool_result is_TableError ''Cell text set successfully''
       ''TABLE_CELL_ERROR'' ''TableError''
       ''Please check if the table index, row, column, and section index are valid.''
       (with_handler w document_name doc_files_path
          (\<lambda>w1 h. TableHandler_set_cell_text w1 h table_index row column text section_index))"

subsection \<open>\<open>api/document_tools.py\<close>: only \<open>DocumentError\<close> is caught\<close>

definition document_tools_find_and_replace ::
  "world \<Rightarrow> string \<Rightarrow> string \<Rightarrow> string \<Rightarrow> bool \<Rightarrow> bool \<Rightarrow> string
     \<Rightarrow> (py_exn + dict envelope) \<times> world" where
  "document_tools_find_and_replace w document_name find_text replace_text match_case
       match_whole_word doc_files_path =
     tool_result is_DocumentError ''Text replacement completed successfully''
       ''DOC_REPLACE_ERROR'' ''DocumentError''
       ''Please check if the document exists and the search parameters are valid.''
       (case get_doc_path w document_name (Some doc_files_path) of
          (Inl e, w1) \<Rightarrow> (Inl e, w1)
        | (Inr path, w1) \<Rightarrow>
            (case DocumentHandler_init w1 path False of
               Inl e \<Rightarrow> (Inl e, w1)
             | Inr h \<Rightarrow>
                 (case DocumentHandler_find_and_replace w1 h find_text replace_text match_case
                         match_whole_word of
                    (r, h', w2) \<Rightarrow> (r, w2))))"

subsection \<open>\<open>api/conversion_tools.py\<close>: only \<open>ConversionError\<close> is caught\<close>



section \<open>A concrete environment\<close>

text \<open>
  A file system with the directory \<open>word_files\<close> under the working directory and
  one document \<open>a.docx\<close> in it, as \<open>create_document\<close> leaves it when the engine
  gives a new document one empty section. Every engine and system call succeeds.
\<close>

definition example_document :: Document where
  "example_document = \<lparr>Sections = [\<lparr>Paragraphs = [], Tables = []\<rparr>]\<rparr>"

definition example_format :: ParagraphFormat where
  "example_format =
     \<lparr>HorizontalAlignment = Left, FirstLineIndent = 0, LeftIndent = 0, RightIndent = 0,
      LineSpacing = 12, LineSpacingRule = Multiple, BeforeSpacing = 0, AfterSpacing = 0\<rparr>"

definition example_world :: world where
  "example_world =
     \<lparr>cwd = ''/srv/app'',
      module_file = ''/srv/app/src/spire_doc_mcp/api/base.py'',
      files = [''/srv/app/word_files/a.docx'' \<mapsto>
                 \<lparr>readable = True, writable = True, content = Inr example_document\<rparr>],
      dirs = {''/srv/app/word_files''},
      makedirs_error = (\<lambda>d. None),
      save_error = (\<lambda>p. None),
      style_error = (\<lambda>s. None),
      engine_replace = (\<lambda>d f r mc mw. Inr d),
      new_paragraph = \<lparr>Text = [], Format = example_format, StyleName = ''Normal''\<rparr>,
      new_cell = \<lparr>Cell_Paragraphs = []\<rparr>,
      clock = ''2025-01-01T00:00:00''\<rparr>"

text \<open>A handler on that document, as \<open>BaseHandler.__init__\<close> builds it.\<close>

definition example_handler :: handler where
  "example_handler =
     \<lparr>doc_path = ''/srv/app/word_files/a.docx'', document = Some example_document\<rparr>"

text \<open>A paragraph with a text, and a handler on a document with three paragraphs and
  two tables of three rows and two columns.\<close>

definition example_paragraph :: "string \<Rightarrow> Paragraph" where
  "example_paragraph t = \<lparr>Text = t, Format = example_format, StyleName = ''Normal''\<rparr>"

definition example_table :: Table where
  "example_table =
     \<lparr>Rows = replicate 3 \<lparr>Cells = replicate 2 \<lparr>Cell_Paragraphs = []\<rparr>\<rparr>, Table_Style = None\<rparr>"

definition example_handler2 :: handler where
  "example_handler2 =
     \<lparr>doc_path = ''/srv/app/word_files/a.docx'',
      document = Some \<lparr>Sections =
        [\<lparr>Paragraphs = [example_paragraph ''one'', example_paragraph ''two'',
                        example_paragraph ''three''],
          Tables = [example_table, example_table]\<rparr>]\<rparr>\<rparr>"

section \<open>Path resolution\<close>

subsection \<open>Facts about the string functions\<close>



lemma rstrip_char_keep: "xs \<noteq> [] \<Longrightarrow> last xs \<noteq> c \<Longrightarrow> rstrip_char c xs = xs"
  by (cases xs rule: rev_cases) (simp_all add: rstrip_char_def)


lemma rstrip_char_append_keep:
  "ys \<noteq> [] \<Longrightarrow> last ys \<noteq> c \<Longrightarrow> rstrip_char c (xs @ ys) = xs @ ys"
  by (simp add: rstrip_char_keep)
















subsection \<open>\<open>get_doc_path\<close>\<close>









lemma example_world_dir: "path_exists example_world ''./word_files''"
  by (simp add: path_exists_def abspath_def abspath_in_def normpath_def startswith_def
      path_join_def endswith_def example_world_def)





section \<open>Facts about the handlers\<close>

lemma is_TableError_iff: "is_TableError e \<longleftrightarrow> (\<exists>msg c. e = TableError msg c)"
  by (cases e) auto

lemma list_item_Inr:
  "list_item xs i = Inr x \<longleftrightarrow> 0 \<le> i \<and> i < int (length xs) \<and> x = xs ! nat i"
  by (auto simp: list_item_def)

lemma Sections_item_Inr:
  "Sections_item h s = Inr sec \<longleftrightarrow>
     (\<exists>d. document h = Some d \<and> 0 \<le> s \<and> s < int (length (Sections d)) \<and> sec = Sections d ! nat s)"
  by (auto simp: Sections_item_def list_item_Inr split: option.splits)

lemma validate_section_index_None:
  "validate_section_index h s = None \<longleftrightarrow>
     (\<exists>d. document h = Some d \<and> 0 \<le> s \<and> s < int (length (Sections d)))"
  by (auto simp: validate_section_index_def split: option.splits)

lemma validate_section_index_Sections_item:
  "validate_section_index h s = None \<longleftrightarrow> (\<exists>sec. Sections_item h s = Inr sec)"
  by (auto simp: validate_section_index_None Sections_item_Inr)

lemma validate_paragraph_index_None:
  "validate_paragraph_index h p s = None \<longleftrightarrow>
     (\<exists>sec. Sections_item h s = Inr sec \<and> 0 \<le> p \<and> p < int (length (Paragraphs sec)))"
proof (cases "validate_section_index h s")
  case None
  then obtain sec where "Sections_item h s = Inr sec"
    by (auto simp: validate_section_index_Sections_item)
  with None show ?thesis by (auto simp: validate_paragraph_index_def)
next
  case (Some e)
  then have "\<not> (\<exists>sec. Sections_item h s = Inr sec)"
    using validate_section_index_Sections_item [of h s] by simp
  with Some show ?thesis by (auto simp: validate_paragraph_index_def)
qed

lemma Sections_item_update_section:
  "Sections_item h s = Inr sec \<Longrightarrow> Sections_item (update_section h s f) s = Inr (f sec)"
  by (auto simp: Sections_item_Inr update_section_def)

lemma doc_path_update_section: "doc_path (update_section h s f) = doc_path h"
  by (auto simp: update_section_def split: option.splits)

lemma document_update_section:
  "Sections_item h s = Inr sec \<Longrightarrow> document (update_section h s f) \<noteq> None"
  by (auto simp: Sections_item_Inr update_section_def)

lemma save_document_ok:
  "document h = Some d \<Longrightarrow> save_error w (doc_path h) = None \<Longrightarrow>
   \<exists>w'. save_document w h = (None, w') \<and> LoadFromFile w' (doc_path h) = Inr d
        \<and> save_error w' = save_error w"
  by (auto simp: save_document_def SaveToFile_def LoadFromFile_def abspath_def
      split: option.splits)

lemma table_count_eq:
  "Sections_item h s = Inr sec \<Longrightarrow> table_count h s = int (length (Tables sec))"
  by (simp add: table_count_def)

lemma paragraph_count_eq:
  "Sections_item h s = Inr sec \<Longrightarrow> paragraph_count h s = int (length (Paragraphs sec))"
  by (simp add: paragraph_count_def)

lemma insert_at_length: "length (insert_at i x xs) = Suc (length xs)"
  by (simp add: insert_at_def)

lemma insert_at_nth: "i \<le> length xs \<Longrightarrow> insert_at i x xs ! i = x"
  by (simp add: insert_at_def nth_append)

lemma insert_at_update: "i \<le> length xs \<Longrightarrow> (insert_at i x xs)[i := y] = insert_at i y xs"
  by (simp add: insert_at_def list_update_append)

lemma insert_at_last:
  "i < length xs \<Longrightarrow> insert_at i x xs ! length xs = last xs"
  by (cases xs rule: rev_cases) (simp_all add: insert_at_def nth_append)

lemma Tables_set_style_at_insert:
  "i \<le> length (Tables sec) \<Longrightarrow>
   Tables (set_style_at i st (sec\<lparr>Tables := insert_at i t (Tables sec)\<rparr>))
     = insert_at i (t\<lparr>Table_Style := Some st\<rparr>) (Tables sec)"
  by (simp add: set_style_at_def insert_at_length insert_at_nth insert_at_update)

lemma create_table_success:
  assumes "TableHandler_create_table w h rows columns s p style = (Inr result, h', w')"
  shows "\<exists>sec sec' t.
           Sections_item h s = Inr sec \<and> Sections_item h' s = Inr sec'
         \<and> Rows t = Rows (new_table w rows columns)
         \<and> Tables sec' =
             insert_at (case p of Some i \<Rightarrow> nat (min (i + 1) (int (length (Tables sec))))
                        | None \<Rightarrow> length (Tables sec)) t (Tables sec)
         \<and> map_of result ''table_index'' = Some (JInt (int (length (Tables sec')) - 1))
         \<and> map_of result ''total_tables_in_section'' = Some (JInt (int (length (Tables sec'))))"
proof -
  from assms obtain sec where sec: "Sections_item h s = Inr sec"
    unfolding TableHandler_create_table_def
    by (auto split: option.splits sum.splits if_splits prod.splits)
  define pos where "pos = (case p of Some i \<Rightarrow> nat (min (i + 1) (int (length (Tables sec))))
                        | None \<Rightarrow> length (Tables sec))"
  have pos: "pos \<le> length (Tables sec)" by (auto simp: pos_def split: option.splits)
  define h1 where "h1 = update_section h s
      (\<lambda>x. x\<lparr>Tables := insert_at pos (new_table w rows columns) (Tables x)\<rparr>)"
  have s1: "Sections_item h1 s = Inr (sec\<lparr>Tables := insert_at pos (new_table w rows columns) (Tables sec)\<rparr>)"
    unfolding h1_def using sec by (rule Sections_item_update_section)
  define h2 where "h2 = (case style of None \<Rightarrow> h1
      | Some st \<Rightarrow> if st = [] then h1
          else (case style_error w st of Some msg \<Rightarrow> h1
                | None \<Rightarrow> update_section h1 s (set_style_at pos st)))"
  have "\<exists>sec2 t. Sections_item h2 s = Inr sec2 \<and> Rows t = Rows (new_table w rows columns)
      \<and> Tables sec2 = insert_at pos t (Tables sec)"
  proof (cases "h2 = h1")
    case True
    then show ?thesis using s1 by auto
  next
    case False
    then obtain st where "h2 = update_section h1 s (set_style_at pos st)"
      by (auto simp: h2_def split: option.splits if_splits)
    then have "Sections_item h2 s = Inr (set_style_at pos st
        (sec\<lparr>Tables := insert_at pos (new_table w rows columns) (Tables sec)\<rparr>))"
      using Sections_item_update_section [OF s1] by simp
    then show ?thesis
      using Tables_set_style_at_insert [OF pos, of st "new_table w rows columns"]
      by (intro exI conjI) (assumption, auto)
  qed
  then obtain sec2 t where t: "Sections_item h2 s = Inr sec2"
      "Rows t = Rows (new_table w rows columns)" "Tables sec2 = insert_at pos t (Tables sec)"
    by blast
  have res: "h' = h2 \<and> result =
      [(''success'', JBool True), (''message'', JStr ''Table created successfully''),
       (''table_index'', JInt (table_count h2 s - 1)), (''section_index'', JInt s),
       (''paragraph_index'', (case p of None \<Rightarrow> JNone | Some i \<Rightarrow> JInt i)),
       (''dimensions'', JDict [(''rows'', JInt rows), (''columns'', JInt columns)]),
       (''style'', (case style of None \<Rightarrow> JNone | Some st \<Rightarrow> JStr st)),
       (''total_tables_in_section'', JInt (table_count h2 s))]"
    using assms sec unfolding TableHandler_create_table_def h2_def h1_def pos_def Let_def
    by (auto split: option.splits sum.splits if_splits prod.splits)
  have "table_count h2 s = int (length (Tables sec2))" using t(1) by (rule table_count_eq)
  with res t sec show ?thesis unfolding pos_def by auto
qed

subsection \<open>Evaluating the definitions on the concrete environment\<close>

lemmas path_defs = abspath_def abspath_in_def normpath_def startswith_def path_join_def
  endswith_def dirname_def upto_last_def rstrip_char_def

lemmas handler_defs = validate_section_index_def validate_paragraph_index_def
  Sections_item_def list_item_def update_section_def save_document_def SaveToFile_def
  table_count_def paragraph_count_def

lemmas example_defs = example_world_def example_handler_def example_handler2_def
  example_document_def example_table_def example_paragraph_def example_format_def

lemma create_table_example:
  "\<exists>result h' w'. TableHandler_create_table example_world example_handler2 1 1 0 (Some 0) None
      = (Inr result, h', w')"
  by (simp add: TableHandler_create_table_def handler_defs example_defs Let_def
      insert_at_def new_table_def)

lemma find_and_replace_example:
  "\<exists>result. fst (DocumentHandler_find_and_replace example_world example_handler ''x'' ''y'' False False)
      = Inr result"
  by (simp add: DocumentHandler_find_and_replace_def handler_defs example_defs Let_def)


section \<open>Find and replace, table creation\<close>

text \<open>
  Claim C9. Whenever \<open>find_and_replace\<close> returns a result, whatever the engine's
  \<open>Replace\<close> did to the document (it may have found no occurrence or many), the
  result's \<open>replacements\<close> is 1.
\<close>

theorem find_and_replace_reports_one:
  assumes "fst (DocumentHandler_find_and_replace w h find_text replace_text match_case
                  match_whole_word) = Inr result"
  shows "map_of result ''replacements'' = Some (JInt 1)"
  using assms
  by (auto simp: DocumentHandler_find_and_replace_def Let_def
      split: option.splits sum.splits if_splits prod.splits)

theorem find_and_replace_reports_one_witness:
  "\<exists>result.
     fst (DocumentHandler_find_and_replace example_world example_handler ''x'' ''y'' False False)
       = Inr result
     \<and> map_of result ''replacements'' = Some (JInt 1)"
proof -
  obtain result where r:
    "fst (DocumentHandler_find_and_replace example_world example_handler ''x'' ''y'' False False)
       = Inr result"
    using find_and_replace_example by blast
  then show ?thesis using find_and_replace_reports_one [OF r] by blast
qed

lemma create_table_rejects:
  assumes "\<not> (1 \<le> rows \<and> rows \<le> 1000 \<and> 1 \<le> columns \<and> columns \<le> 100)"
  shows "\<exists>e. TableHandler_create_table w h rows columns section_index paragraph_index style
           = (Inl e, h, w) \<and> is_TableError e"
proof -
  have "rows \<le> 0 \<or> columns \<le> 0 \<or> rows > 1000 \<or> columns > 100" using assms by auto
  then show ?thesis
    unfolding TableHandler_create_table_def
    by (auto split: option.splits sum.splits)
qed

lemma create_table_accepts:
  assumes "1 \<le> rows" "rows \<le> 1000" "1 \<le> columns" "columns \<le> 100"
    and sec: "Sections_item h section_index = Inr sec"
    and p: "case paragraph_index of None \<Rightarrow> True
            | Some i \<Rightarrow> 0 \<le> i \<and> i < int (length (Paragraphs sec))"
    and save: "save_error w (doc_path h) = None"
  shows "\<exists>result. fst (TableHandler_create_table w h rows columns section_index
                          paragraph_index style) = Inr result"
proof -
  have v: "validate_section_index h section_index = None"
    using sec by (auto simp: validate_section_index_Sections_item)
  have vp: "(case paragraph_index of None \<Rightarrow> None
             | Some i \<Rightarrow> validate_paragraph_index h i section_index) = None"
    using p sec by (auto simp: validate_paragraph_index_None split: option.splits)
  define pos where "pos = (case paragraph_index of
       Some i \<Rightarrow> nat (min (i + 1) (int (length (Tables sec)))) | None \<Rightarrow> length (Tables sec))"
  define h1 where "h1 = update_section h section_index
      (\<lambda>x. x\<lparr>Tables := insert_at pos (new_table w rows columns) (Tables x)\<rparr>)"
  define h2 where "h2 = (case style of None \<Rightarrow> h1
      | Some st \<Rightarrow> if st = [] then h1
          else (case style_error w st of Some msg \<Rightarrow> h1
                | None \<Rightarrow> update_section h1 section_index (set_style_at pos st)))"
  have d1: "document h1 \<noteq> None" unfolding h1_def using sec by (rule document_update_section)
  have s1: "\<exists>sec1. Sections_item h1 section_index = Inr sec1"
    unfolding h1_def using Sections_item_update_section [OF sec] by blast
  have "document h2 \<noteq> None \<and> doc_path h2 = doc_path h"
    using d1 s1 document_update_section
    by (auto simp: h2_def h1_def doc_path_update_section split: option.splits)
  then obtain w' where "save_document w h2 = (None, w')"
    using save save_document_ok [of h2 _ w] by auto
  then show ?thesis
    using assms(1-4) v vp sec
    unfolding TableHandler_create_table_def h2_def h1_def pos_def Let_def
    by (simp split: option.splits)
qed

text \<open>
  Claim C6. \<open>create_table\<close> returns a result only for rows in [1,1000] and columns in
  [1,100]. For every other pair it raises a \<open>TableError\<close> (the class the handler has for
  the dimension error) with the handler's document and the file system as they were:
  no table is added and nothing is saved. For a pair in range, a valid section, a valid
  or absent paragraph index and a save that succeeds, it returns a result.
\<close>

theorem create_table_dimension_check:
  "((\<exists>result. fst (TableHandler_create_table w h rows columns section_index paragraph_index
                     style) = Inr result)
      \<longrightarrow> 1 \<le> rows \<and> rows \<le> 1000 \<and> 1 \<le> columns \<and> columns \<le> 100)
   \<and> (\<not> (1 \<le> rows \<and> rows \<le> 1000 \<and> 1 \<le> columns \<and> columns \<le> 100)
      \<longrightarrow> (\<exists>e. TableHandler_create_table w h rows columns section_index paragraph_index style
                 = (Inl e, h, w) \<and> is_TableError e))
   \<and> (1 \<le> rows \<and> rows \<le> 1000 \<and> 1 \<le> columns \<and> columns \<le> 100
      \<and> (\<exists>sec. Sections_item h section_index = Inr sec
             \<and> (case paragraph_index of None \<Rightarrow> True
                 | Some i \<Rightarrow> 0 \<le> i \<and> i < int (length (Paragraphs sec))))
      \<and> save_error w (doc_path h) = None
      \<longrightarrow> (\<exists>result. fst (TableHandler_create_table w h rows columns section_index
                            paragraph_index style) = Inr result))"
proof -
  have a: "(\<exists>result. fst (TableHandler_create_table w h rows columns section_index
                     paragraph_index style) = Inr result)
      \<longrightarrow> 1 \<le> rows \<and> rows \<le> 1000 \<and> 1 \<le> columns \<and> columns \<le> 100"
    using create_table_rejects [of rows columns w h section_index paragraph_index style]
    by (cases "1 \<le> rows \<and> rows \<le> 1000 \<and> 1 \<le> columns \<and> columns \<le> 100") auto
  have b: "\<not> (1 \<le> rows \<and> rows \<le> 1000 \<and> 1 \<le> columns \<and> columns \<le> 100)
      \<longrightarrow> (\<exists>e. TableHandler_create_table w h rows columns section_index paragraph_index style
                 = (Inl e, h, w) \<and> is_TableError e)"
    using create_table_rejects [of rows columns w h section_index paragraph_index style]
    by blast
  have c: "1 \<le> rows \<and> rows \<le> 1000 \<and> 1 \<le> columns \<and> columns \<le> 100
      \<and> (\<exists>sec. Sections_item h section_index = Inr sec
             \<and> (case paragraph_index of None \<Rightarrow> True
                 | Some i \<Rightarrow> 0 \<le> i \<and> i < int (length (Paragraphs sec))))
      \<and> save_error w (doc_path h) = None
      \<longrightarrow> (\<exists>result. fst (TableHandler_create_table w h rows columns section_index
                            paragraph_index style) = Inr result)"
    using create_table_accepts [of rows columns h section_index _ paragraph_index w style]
    by blast
  show ?thesis by (rule conjI [OF a conjI [OF b c]])
qed

theorem create_table_dimension_check_witness:
  "(\<exists>result. fst (TableHandler_create_table example_world example_handler 1000 100 0 None None)
      = Inr result)
   \<and> (\<exists>e. TableHandler_create_table example_world example_handler 0 3 0 None None
         = (Inl e, example_handler, example_world) \<and> is_TableError e)
   \<and> (\<exists>e. TableHandler_create_table example_world example_handler 1001 3 0 None None
         = (Inl e, example_handler, example_world) \<and> is_TableError e)
   \<and> (\<exists>e. TableHandler_create_table example_world example_handler 2 (- 1) 0 None None
         = (Inl e, example_handler, example_world) \<and> is_TableError e)
   \<and> (\<exists>e. TableHandler_create_table example_world example_handler 2 101 0 None None
         = (Inl e, example_handler, example_world) \<and> is_TableError e)"
proof -
  have sec: "Sections_item example_handler 0 = Inr \<lparr>Paragraphs = [], Tables = []\<rparr>"
    by (simp add: Sections_item_def list_item_def example_defs)
  have save: "save_error example_world (doc_path example_handler) = None"
    by (simp add: example_defs)
  show ?thesis
    using create_table_dimension_check [of example_world example_handler 1000 100 0 None None]
      create_table_dimension_check [of example_world example_handler 0 3 0 None None]
      create_table_dimension_check [of example_world example_handler 1001 3 0 None None]
      create_table_dimension_check [of example_world example_handler 2 "- 1" 0 None None]
      create_table_dimension_check [of example_world example_handler 2 101 0 None None]
      sec save
    by simp
qed

text \<open>
  Claim C10. When \<open>create_table\<close> returns a result, the new table stands in the
  section's table collection at \<open>min(paragraph_index + 1, previous table count)\<close>
  (at the end when no paragraph index is given), and the returned \<open>table_index\<close> is
  the new table count minus 1, which is the previous table count. So when the new table
  is inserted before the end, the returned index is that of the table that was last
  before, not of the new one.
\<close>

theorem create_table_returned_index:
  assumes "TableHandler_create_table w h rows columns s p style = (Inr result, h', w')"
  shows "\<exists>sec sec' t.
           Sections_item h s = Inr sec \<and> Sections_item h' s = Inr sec'
         \<and> Rows t = Rows (new_table w rows columns)
         \<and> Tables sec' =
             insert_at (case p of Some i \<Rightarrow> nat (min (i + 1) (int (length (Tables sec))))
                        | None \<Rightarrow> length (Tables sec)) t (Tables sec)
         \<and> map_of result ''table_index'' = Some (JInt (int (length (Tables sec')) - 1))
         \<and> map_of result ''total_tables_in_section'' = Some (JInt (int (length (Tables sec'))))
         \<and> int (length (Tables sec')) - 1 = int (length (Tables sec))
         \<and> (\<forall>i. p = Some i \<and> i + 1 < int (length (Tables sec)) \<longrightarrow>
                Tables sec' ! nat (i + 1) = t
              \<and> Tables sec' ! length (Tables sec) = last (Tables sec))"
proof -
  obtain sec sec' t where f: "Sections_item h s = Inr sec" "Sections_item h' s = Inr sec'"
      "Rows t = Rows (new_table w rows columns)"
      "Tables sec' =
             insert_at (case p of Some i \<Rightarrow> nat (min (i + 1) (int (length (Tables sec))))
                        | None \<Rightarrow> length (Tables sec)) t (Tables sec)"
      "map_of result ''table_index'' = Some (JInt (int (length (Tables sec')) - 1))"
      "map_of result ''total_tables_in_section'' = Some (JInt (int (length (Tables sec'))))"
    using create_table_success [OF assms] by blast
  have len: "int (length (Tables sec')) - 1 = int (length (Tables sec))"
    using f(4) by (simp add: insert_at_length)
  have "0 \<le> i" if "p = Some i" for i
    using assms that unfolding TableHandler_create_table_def
    by (auto simp: validate_paragraph_index_None split: option.splits sum.splits if_splits)
  then have "\<forall>i. p = Some i \<and> i + 1 < int (length (Tables sec)) \<longrightarrow>
                Tables sec' ! nat (i + 1) = t
              \<and> Tables sec' ! length (Tables sec) = last (Tables sec)"
    using f(4) by (auto simp: insert_at_nth insert_at_last min_def)
  with f len show ?thesis by blast
qed

theorem create_table_returned_index_witness:
  "\<exists>result h' w' sec'.
     TableHandler_create_table example_world example_handler2 1 1 0 (Some 0) None
       = (Inr result, h', w')
     \<and> map_of result ''table_index'' = Some (JInt 2)
     \<and> Sections_item h' 0 = Inr sec'
     \<and> Rows (Tables sec' ! 1) = Rows (new_table example_world 1 1)
     \<and> Tables sec' ! 2 = example_table"
proof -
  obtain result h' w' where r:
    "TableHandler_create_table example_world example_handler2 1 1 0 (Some 0) None
       = (Inr result, h', w')"
    using create_table_example by blast
  have sec: "Sections_item example_handler2 0 =
      Inr \<lparr>Paragraphs = [example_paragraph ''one'', example_paragraph ''two'',
                        example_paragraph ''three''],
          Tables = [example_table, example_table]\<rparr>"
    by (simp add: Sections_item_def list_item_def example_handler2_def)
  from create_table_returned_index [OF r] sec r show ?thesis
    by (auto simp: numeral_2_eq_2)
qed

section \<open>Cell text\<close>

lemma is_ParagraphError_iff: "is_ParagraphError e \<longleftrightarrow> (\<exists>msg c. e = ParagraphError msg c)"
  by (cases e) auto

lemma get_table_info_ok:
  assumes "Sections_item h s = Inr sec" "0 \<le> t" "t < int (length (Tables sec))"
  shows "TableHandler_get_table_info h t s =
           Inr [(''table_index'', JInt t), (''section_index'', JInt s),
                (''rows'', JInt (int (length (Rows (Tables sec ! nat t))))),
                (''columns'', JInt (column_count (Tables sec ! nat t))),
                (''total_cells'', JInt (int (length (Rows (Tables sec ! nat t)))
                                         * column_count (Tables sec ! nat t)))]"
proof -
  have "validate_section_index h s = None"
    using assms(1) by (auto simp: validate_section_index_Sections_item)
  then show ?thesis
    using assms by (simp add: TableHandler_get_table_info_def list_item_def)
qed

text \<open>
  Claim C8. For a table that exists, \<open>set_cell_text\<close> with a row outside the table's
  row count or a column outside the cell count of row 0 raises a \<open>TableError\<close> (the
  class the handler has for the index error), and the handler's document and the file
  system are as they were.
\<close>

theorem set_cell_text_out_of_extent:
  assumes "Sections_item h s = Inr sec" and "0 \<le> t" and "t < int (length (Tables sec))"
    and "row < 0 \<or> row \<ge> int (length (Rows (Tables sec ! nat t)))
         \<or> column < 0 \<or> column \<ge> column_count (Tables sec ! nat t)"
  shows "\<exists>e. TableHandler_set_cell_text w h t row column text s = (Inl e, h, w)
             \<and> is_TableError e"
  using assms(4)
  unfolding TableHandler_set_cell_text_def get_table_info_ok [OF assms(1-3)]
  by (auto simp: dict_int_def dict_item_def)

theorem set_cell_text_out_of_extent_witness:
  "\<exists>e. TableHandler_set_cell_text example_world example_handler2 0 5 0 ''x'' 0
         = (Inl e, example_handler2, example_world) \<and> is_TableError e"
proof -
  have sec: "Sections_item example_handler2 0 =
      Inr \<lparr>Paragraphs = [example_paragraph ''one'', example_paragraph ''two'',
                        example_paragraph ''three''],
          Tables = [example_table, example_table]\<rparr>"
    by (simp add: Sections_item_def list_item_def example_handler2_def)
  show ?thesis
    using set_cell_text_out_of_extent [OF sec, of 0 5 0 example_world "''x''"]
    by (simp add: example_table_def)
qed

section \<open>Deleting a paragraph\<close>

lemma remove_at_length: "i < length xs \<Longrightarrow> length (remove_at i xs) = length xs - 1"
  by (simp add: remove_at_def)

lemma remove_at_nth:
  "i < length xs \<Longrightarrow> j < length xs - 1 \<Longrightarrow>
   remove_at i xs ! j = (if j < i then xs ! j else xs ! Suc j)"
  by (auto simp: remove_at_def nth_append min_def)

lemma get_paragraph_text_ok:
  assumes "Sections_item h s = Inr sec" "0 \<le> j" "j < int (length (Paragraphs sec))"
  shows "\<exists>r. ParagraphHandler_get_paragraph_text h j s = Inr r
           \<and> map_of r ''text'' = Some (JStr (Text (Paragraphs sec ! nat j)))"
proof -
  have "validate_paragraph_index h j s = None"
    using assms by (auto simp: validate_paragraph_index_None)
  then show ?thesis
    using assms by (simp add: ParagraphHandler_get_paragraph_text_def list_item_def)
qed

lemma get_paragraph_text_fails:
  assumes "Sections_item h s = Inr sec" "j < 0 \<or> j \<ge> int (length (Paragraphs sec))"
  shows "\<exists>e. ParagraphHandler_get_paragraph_text h j s = Inl e \<and> is_ParagraphError e"
proof -
  have "validate_paragraph_index h j s \<noteq> None"
    using assms by (auto simp: validate_paragraph_index_None)
  then show ?thesis
    by (auto simp: ParagraphHandler_get_paragraph_text_def ParagraphError_default_def)
qed

lemma get_paragraphinfo_ok:
  assumes "Sections_item h s = Inr sec" "0 \<le> j" "j < int (length (Paragraphs sec))"
  shows "\<exists>r. ParagraphHandler_get_paragraphinfo h j s = Inr r
           \<and> dict_item r ''text'' = Inr (JStr (Text (Paragraphs sec ! nat j)))"
proof -
  have "validate_paragraph_index h j s = None"
    using assms by (auto simp: validate_paragraph_index_None)
  then show ?thesis
    using assms
    by (simp add: ParagraphHandler_get_paragraphinfo_def list_item_def dict_item_def)
qed

lemma delete_paragraph_ok:
  assumes sec: "Sections_item h s = Inr sec" and i: "0 \<le> i" "i < int (length (Paragraphs sec))"
    and save: "save_error w (doc_path h) = None"
  shows "\<exists>h' w' d'.
           ParagraphHandler_delete_paragraph w h i s =
             (Inr [(''section_index'', JInt s), (''paragraph_index'', JInt i),
                   (''deleted_text'', JStr (Text (Paragraphs sec ! nat i)))], h', w')
         \<and> Sections_item h' s = Inr (sec\<lparr>Paragraphs := remove_at (nat i) (Paragraphs sec)\<rparr>)
         \<and> document h' = Some d' \<and> LoadFromFile w' (doc_path h) = Inr d'"
proof -
  define h1 where "h1 = update_section h s
      (\<lambda>x. x\<lparr>Paragraphs := remove_at (nat i) (Paragraphs x)\<rparr>)"
  have v: "validate_paragraph_index h i s = None"
    using sec i by (auto simp: validate_paragraph_index_None)
  obtain info where info: "ParagraphHandler_get_paragraphinfo h i s = Inr info"
      "dict_item info ''text'' = Inr (JStr (Text (Paragraphs sec ! nat i)))"
    using get_paragraphinfo_ok [OF sec i] by blast
  have s1: "Sections_item h1 s = Inr (sec\<lparr>Paragraphs := remove_at (nat i) (Paragraphs sec)\<rparr>)"
    unfolding h1_def using sec by (rule Sections_item_update_section)
  obtain d1 where d1: "document h1 = Some d1"
    using document_update_section [OF sec] by (auto simp: h1_def)
  have "doc_path h1 = doc_path h" by (simp add: h1_def doc_path_update_section)
  then obtain w' where w': "save_document w h1 = (None, w')"
      "LoadFromFile w' (doc_path h) = Inr d1"
    using save_document_ok [OF d1, of w] save by auto
  have "ParagraphHandler_delete_paragraph w h i s =
           (Inr [(''section_index'', JInt s), (''paragraph_index'', JInt i),
                   (''deleted_text'', JStr (Text (Paragraphs sec ! nat i)))], h1, w')"
    using v sec info w'(1)
    by (simp add: ParagraphHandler_delete_paragraph_def h1_def [symmetric])
  with s1 d1 w'(2) show ?thesis by blast
qed

text \<open>
  Claim C7. \<open>delete_paragraph\<close> at a valid index \<open>i\<close>, with a save that succeeds,
  returns the text of the paragraph that was at \<open>i\<close> and saves the document without
  it. Afterwards a read at an index \<open>j \<ge> i\<close> returns the text that was at \<open>j + 1\<close>,
  or raises a \<open>ParagraphError\<close> (the class the handler has for the index error) when
  there was no paragraph at \<open>j + 1\<close>; a read below \<open>i\<close> returns what it returned before.
\<close>

theorem delete_paragraph_shifts:
  assumes sec: "Sections_item h s = Inr sec"
    and i: "0 \<le> i" "i < int (length (Paragraphs sec))"
    and save: "save_error w (doc_path h) = None"
  shows "\<exists>h' w' d'.
           ParagraphHandler_delete_paragraph w h i s =
             (Inr [(''section_index'', JInt s), (''paragraph_index'', JInt i),
                   (''deleted_text'', JStr (Text (Paragraphs sec ! nat i)))], h', w')
         \<and> document h' = Some d' \<and> LoadFromFile w' (doc_path h) = Inr d'
         \<and> (\<forall>j. i \<le> j \<and> j + 1 < int (length (Paragraphs sec)) \<longrightarrow>
               (\<exists>r. ParagraphHandler_get_paragraph_text h' j s = Inr r
                  \<and> map_of r ''text'' = Some (JStr (Text (Paragraphs sec ! nat (j + 1))))))
         \<and> (\<forall>j. i \<le> j \<and> j + 1 \<ge> int (length (Paragraphs sec)) \<longrightarrow>
               (\<exists>e. ParagraphHandler_get_paragraph_text h' j s = Inl e \<and> is_ParagraphError e))
         \<and> (\<forall>j. 0 \<le> j \<and> j < i \<longrightarrow>
               (\<exists>r. ParagraphHandler_get_paragraph_text h' j s = Inr r
                  \<and> map_of r ''text'' = Some (JStr (Text (Paragraphs sec ! nat j)))))"
proof -
  define sec' where "sec' = sec\<lparr>Paragraphs := remove_at (nat i) (Paragraphs sec)\<rparr>"
  obtain h' w' d' where d:
      "ParagraphHandler_delete_paragraph w h i s =
             (Inr [(''section_index'', JInt s), (''paragraph_index'', JInt i),
                   (''deleted_text'', JStr (Text (Paragraphs sec ! nat i)))], h', w')"
      "Sections_item h' s = Inr sec'"
      "document h' = Some d'" "LoadFromFile w' (doc_path h) = Inr d'"
    using delete_paragraph_ok [OF sec i save] unfolding sec'_def by blast
  have len: "int (length (Paragraphs sec')) = int (length (Paragraphs sec)) - 1"
    using i by (simp add: sec'_def remove_at_length)
  have nth: "Paragraphs sec' ! nat j = (if j < i then Paragraphs sec ! nat j
                                         else Paragraphs sec ! nat (j + 1))"
    if "0 \<le> j" "j + 1 < int (length (Paragraphs sec))" for j
  proof -
    have "nat j < length (Paragraphs sec) - 1" using that by linarith
    moreover have "nat i < length (Paragraphs sec)" using i by linarith
    ultimately have "remove_at (nat i) (Paragraphs sec) ! nat j =
        (if nat j < nat i then Paragraphs sec ! nat j else Paragraphs sec ! Suc (nat j))"
      by (simp add: remove_at_nth)
    moreover have "Suc (nat j) = nat (j + 1)" using that by linarith
    moreover have "nat j < nat i \<longleftrightarrow> j < i" using that i by linarith
    ultimately show ?thesis by (simp add: sec'_def)
  qed
  have a: "\<forall>j. i \<le> j \<and> j + 1 < int (length (Paragraphs sec)) \<longrightarrow>
               (\<exists>r. ParagraphHandler_get_paragraph_text h' j s = Inr r
                  \<and> map_of r ''text'' = Some (JStr (Text (Paragraphs sec ! nat (j + 1)))))"
  proof (intro allI impI)
    fix j assume j: "i \<le> j \<and> j + 1 < int (length (Paragraphs sec))"
    then have "0 \<le> j" "j < int (length (Paragraphs sec'))" using i len by auto
    from get_paragraph_text_ok [OF d(2) this] nth [of j] j i
    show "\<exists>r. ParagraphHandler_get_paragraph_text h' j s = Inr r
                  \<and> map_of r ''text'' = Some (JStr (Text (Paragraphs sec ! nat (j + 1))))"
      by auto
  qed
  have b: "\<forall>j. i \<le> j \<and> j + 1 \<ge> int (length (Paragraphs sec)) \<longrightarrow>
               (\<exists>e. ParagraphHandler_get_paragraph_text h' j s = Inl e \<and> is_ParagraphError e)"
    using get_paragraph_text_fails [OF d(2)] len by auto
  have c: "\<forall>j. 0 \<le> j \<and> j < i \<longrightarrow>
               (\<exists>r. ParagraphHandler_get_paragraph_text h' j s = Inr r
                  \<and> map_of r ''text'' = Some (JStr (Text (Paragraphs sec ! nat j))))"
  proof (intro allI impI)
    fix j assume j: "0 \<le> j \<and> j < i"
    then have "0 \<le> j" "j < int (length (Paragraphs sec'))" using i len by auto
    from get_paragraph_text_ok [OF d(2) this] nth [of j] j i
    show "\<exists>r. ParagraphHandler_get_paragraph_text h' j s = Inr r
                  \<and> map_of r ''text'' = Some (JStr (Text (Paragraphs sec ! nat j)))"
      by auto
  qed
  from d(1,3,4) a b c show ?thesis by blast
qed

theorem delete_paragraph_shifts_witness:
  "\<exists>h' w' r0 r1 e.
     ParagraphHandler_delete_paragraph example_world example_handler2 1 0 =
       (Inr [(''section_index'', JInt 0), (''paragraph_index'', JInt 1),
             (''deleted_text'', JStr ''two'')], h', w')
     \<and> ParagraphHandler_get_paragraph_text h' 0 0 = Inr r0
     \<and> map_of r0 ''text'' = Some (JStr ''one'')
     \<and> ParagraphHandler_get_paragraph_text h' 1 0 = Inr r1
     \<and> map_of r1 ''text'' = Some (JStr ''three'')
     \<and> ParagraphHandler_get_paragraph_text h' 2 0 = Inl e \<and> is_ParagraphError e"
proof -
  let ?sec = "\<lparr>Paragraphs = [example_paragraph ''one'', example_paragraph ''two'',
                        example_paragraph ''three''],
          Tables = [example_table, example_table]\<rparr>"
  have sec: "Sections_item example_handler2 0 = Inr ?sec"
    by (simp add: Sections_item_def list_item_def example_handler2_def)
  have save: "save_error example_world (doc_path example_handler2) = None"
    by (simp add: example_defs)
  have pre: "(0::int) \<le> 1" "1 < int (length (Paragraphs ?sec))" by simp_all
  from delete_paragraph_shifts [OF sec pre save]
  obtain h' w' where d:
    "ParagraphHandler_delete_paragraph example_world example_handler2 1 0 =
       (Inr [(''section_index'', JInt 0), (''paragraph_index'', JInt 1),
             (''deleted_text'', JStr (Text (Paragraphs ?sec ! nat 1)))], h', w')"
    and a: "\<forall>j. 1 \<le> j \<and> j + 1 < int (length (Paragraphs ?sec)) \<longrightarrow>
               (\<exists>r. ParagraphHandler_get_paragraph_text h' j 0 = Inr r
                  \<and> map_of r ''text'' = Some (JStr (Text (Paragraphs ?sec ! nat (j + 1)))))"
    and b: "\<forall>j. 1 \<le> j \<and> j + 1 \<ge> int (length (Paragraphs ?sec)) \<longrightarrow>
               (\<exists>e. ParagraphHandler_get_paragraph_text h' j 0 = Inl e \<and> is_ParagraphError e)"
    and c: "\<forall>j. 0 \<le> j \<and> j < 1 \<longrightarrow>
               (\<exists>r. ParagraphHandler_get_paragraph_text h' j 0 = Inr r
                  \<and> map_of r ''text'' = Some (JStr (Text (Paragraphs ?sec ! nat j))))"
    by blast
  have n: "nat 2 = Suc (Suc 0)" "nat 1 = Suc 0" by simp_all
  from a [rule_format, of 1] obtain r1 where r1:
    "ParagraphHandler_get_paragraph_text h' 1 0 = Inr r1" "map_of r1 ''text'' = Some (JStr ''three'')"
    by (auto simp: example_paragraph_def n)
  from b [rule_format, of 2] obtain e where e:
    "ParagraphHandler_get_paragraph_text h' 2 0 = Inl e" "is_ParagraphError e"
    by auto
  from c [rule_format, of 0] obtain r0 where r0:
    "ParagraphHandler_get_paragraph_text h' 0 0 = Inr r0" "map_of r0 ''text'' = Some (JStr ''one'')"
    by (auto simp: example_paragraph_def)
  from d have "ParagraphHandler_delete_paragraph example_world example_handler2 1 0 =
       (Inr [(''section_index'', JInt 0), (''paragraph_index'', JInt 1),
             (''deleted_text'', JStr ''two'')], h', w')"
    by (simp add: example_paragraph_def)
  with r0 r1 e show ?thesis by blast
qed

section \<open>Adding a paragraph\<close>

subsection \<open>Opening the saved document again\<close>






subsection \<open>\<open>add_paragraph\<close>\<close>













section \<open>Formatting a paragraph\<close>

lemma is_DocumentError_iff: "is_DocumentError e \<longleftrightarrow> (\<exists>msg c. e = DocumentError msg c)"
  by (cases e) auto

lemma validate_numeric_rejects:
  "param \<in> set params \<Longrightarrow> kwargs_get kwargs param = Some v \<Longrightarrow>
   \<not> is_number v \<or> is_negative v \<Longrightarrow> \<exists>e. validate_numeric kwargs params = Some e"
  by (induction params) (auto split: option.splits)

lemma kwargs_get_format_args:
  "kwargs_get [(''first_line_indent'', a1), (''left_indent'', a2), (''right_indent'', a3),
      (''line_spacing'', a4), (''before_spacing'', a5), (''after_spacing'', a6)]
     ''first_line_indent'' = a1"
  "kwargs_get [(''first_line_indent'', a1), (''left_indent'', a2), (''right_indent'', a3),
      (''line_spacing'', a4), (''before_spacing'', a5), (''after_spacing'', a6)]
     ''left_indent'' = a2"
  "kwargs_get [(''first_line_indent'', a1), (''left_indent'', a2), (''right_indent'', a3),
      (''line_spacing'', a4), (''before_spacing'', a5), (''after_spacing'', a6)]
     ''right_indent'' = a3"
  "kwargs_get [(''first_line_indent'', a1), (''left_indent'', a2), (''right_indent'', a3),
      (''line_spacing'', a4), (''before_spacing'', a5), (''after_spacing'', a6)]
     ''line_spacing'' = a4"
  "kwargs_get [(''first_line_indent'', a1), (''left_indent'', a2), (''right_indent'', a3),
      (''line_spacing'', a4), (''before_spacing'', a5), (''after_spacing'', a6)]
     ''before_spacing'' = a5"
  "kwargs_get [(''first_line_indent'', a1), (''left_indent'', a2), (''right_indent'', a3),
      (''line_spacing'', a4), (''before_spacing'', a5), (''after_spacing'', a6)]
     ''after_spacing'' = a6"
  by (simp_all add: kwargs_get_def split: option.splits)

lemma validate_numeric_format_args:
  assumes "a1 = Some v \<or> a2 = Some v \<or> a3 = Some v \<or> a4 = Some v \<or> a5 = Some v
           \<or> a6 = Some v"
    and "\<not> is_number v \<or> is_negative v"
  shows "\<exists>e. validate_numeric
     [(''first_line_indent'', a1), (''left_indent'', a2), (''right_indent'', a3),
      (''line_spacing'', a4), (''before_spacing'', a5), (''after_spacing'', a6)]
     numeric_params = Some e"
proof -
  let ?k = "[(''first_line_indent'', a1), (''left_indent'', a2), (''right_indent'', a3),
      (''line_spacing'', a4), (''before_spacing'', a5), (''after_spacing'', a6)]"
  have m: "''first_line_indent'' \<in> set numeric_params" "''left_indent'' \<in> set numeric_params" "''right_indent'' \<in> set numeric_params" "''line_spacing'' \<in> set numeric_params" "''before_spacing'' \<in> set numeric_params" "''after_spacing'' \<in> set numeric_params"
    by (simp_all add: numeric_params_def)
  from assms(1) consider (1) "a1 = Some v" | (2) "a2 = Some v" | (3) "a3 = Some v" | (4) "a4 = Some v" | (5) "a5 = Some v" | (6) "a6 = Some v"
    by blast
  then show ?thesis
  proof cases
    case 1
    then have "kwargs_get ?k ''first_line_indent'' = Some v" by (simp only: kwargs_get_format_args)
    from validate_numeric_rejects [OF m(1) this assms(2)] show ?thesis .
  next
    case 2
    then have "kwargs_get ?k ''left_indent'' = Some v" by (simp only: kwargs_get_format_args)
    from validate_numeric_rejects [OF m(2) this assms(2)] show ?thesis .
  next
    case 3
    then have "kwargs_get ?k ''right_indent'' = Some v" by (simp only: kwargs_get_format_args)
    from validate_numeric_rejects [OF m(3) this assms(2)] show ?thesis .
  next
    case 4
    then have "kwargs_get ?k ''line_spacing'' = Some v" by (simp only: kwargs_get_format_args)
    from validate_numeric_rejects [OF m(4) this assms(2)] show ?thesis .
  next
    case 5
    then have "kwargs_get ?k ''before_spacing'' = Some v" by (simp only: kwargs_get_format_args)
    from validate_numeric_rejects [OF m(5) this assms(2)] show ?thesis .
  next
    case 6
    then have "kwargs_get ?k ''after_spacing'' = Some v" by (simp only: kwargs_get_format_args)
    from validate_numeric_rejects [OF m(6) this assms(2)] show ?thesis .
  qed
qed

lemma validate_numeric_DocumentError:
  "validate_numeric kwargs params = Some e \<Longrightarrow> is_DocumentError e"
  by (induction params)
     (auto simp: DocumentError_default_def split: option.splits if_splits)

lemma validate_formatting_parameters_DocumentError:
  "validate_formatting_parameters al r kwargs = Some e \<Longrightarrow> is_DocumentError e"
  by (auto simp: validate_formatting_parameters_def DocumentError_default_def
      validate_numeric_DocumentError split: if_splits)

lemma validate_formatting_parameters_rejects:
  assumes "(\<exists>v. (first_line_indent a = Some v \<or> left_indent a = Some v
                \<or> right_indent a = Some v \<or> line_spacing a = Some v
                \<or> before_spacing a = Some v \<or> after_spacing a = Some v)
               \<and> (\<not> is_number v \<or> is_negative v))
           \<or> (\<exists>al. alignment a = Some al \<and> lower al \<notin> set valid_alignments)
           \<or> (\<exists>r. line_spacing_rule a = Some r \<and> lower r \<notin> set valid_rules)"
  shows "\<exists>e. validate_formatting_parameters (alignment a) (line_spacing_rule a)
                 [(''first_line_indent'', first_line_indent a),
                  (''left_indent'', left_indent a),
                  (''right_indent'', right_indent a),
                  (''line_spacing'', line_spacing a),
                  (''before_spacing'', before_spacing a),
                  (''after_spacing'', after_spacing a)] = Some e"
proof (cases "(case alignment a of None \<Rightarrow> False | Some al \<Rightarrow> lower al \<notin> set valid_alignments)
              \<or> (case line_spacing_rule a of None \<Rightarrow> False
                  | Some r \<Rightarrow> lower r \<notin> set valid_rules)")
  case True
  then show ?thesis by (auto simp: validate_formatting_parameters_def)
next
  case False
  then have "\<not> (\<exists>al. alignment a = Some al \<and> lower al \<notin> set valid_alignments)"
      "\<not> (\<exists>r. line_spacing_rule a = Some r \<and> lower r \<notin> set valid_rules)"
    by auto
  with assms obtain v where
      "first_line_indent a = Some v \<or> left_indent a = Some v
       \<or> right_indent a = Some v \<or> line_spacing a = Some v
       \<or> before_spacing a = Some v \<or> after_spacing a = Some v"
      "\<not> is_number v \<or> is_negative v"
    by blast
  from validate_numeric_format_args [OF this]
  show ?thesis using False by (simp add: validate_formatting_parameters_def)
qed

text \<open>
  Claim C2. When one of the six numeric arguments is supplied and is not a number or is
  negative, or \<open>alignment\<close> or \<open>line_spacing_rule\<close> is supplied and is not (in lower
  case, as the code compares it) a member of its enumeration, \<open>format_paragraph\<close>
  raises a \<open>DocumentError\<close> and leaves the handler's document and the file system as
  they were: no formatting field is assigned and nothing is saved, whatever the other
  arguments are.
\<close>

theorem format_paragraph_validates_first:
  assumes "(\<exists>v. (first_line_indent a = Some v \<or> left_indent a = Some v
                \<or> right_indent a = Some v \<or> line_spacing a = Some v
                \<or> before_spacing a = Some v \<or> after_spacing a = Some v)
               \<and> (\<not> is_number v \<or> is_negative v))
           \<or> (\<exists>al. alignment a = Some al \<and> lower al \<notin> set valid_alignments)
           \<or> (\<exists>r. line_spacing_rule a = Some r \<and> lower r \<notin> set valid_rules)"
  shows "\<exists>e. FormatHandler_format_paragraph w h paragraph_index a = (Inl e, h, w)
             \<and> is_DocumentError e"
proof -
  obtain e where e: "validate_formatting_parameters (alignment a) (line_spacing_rule a)
                 [(''first_line_indent'', first_line_indent a),
                  (''left_indent'', left_indent a),
                  (''right_indent'', right_indent a),
                  (''line_spacing'', line_spacing a),
                  (''before_spacing'', before_spacing a),
                  (''after_spacing'', after_spacing a)] = Some e"
    using validate_formatting_parameters_rejects [OF assms] by blast
  then have de: "is_DocumentError e" by (rule validate_formatting_parameters_DocumentError)
  show ?thesis
  proof (cases "validate_paragraph_index h paragraph_index 0")
    case None
    with e de show ?thesis by (simp add: FormatHandler_format_paragraph_def)
  next
    case (Some e')
    then show ?thesis
      by (simp add: FormatHandler_format_paragraph_def DocumentError_default_def)
  qed
qed

theorem format_paragraph_validates_first_witness:
  "(\<exists>e. FormatHandler_format_paragraph example_world example_handler2 0
           \<lparr>alignment = Some ''center'', first_line_indent = Some (PyInt 10),
            left_indent = Some (PyInt (- 5)), right_indent = None, line_spacing = None,
            line_spacing_rule = None, before_spacing = None, after_spacing = None\<rparr>
         = (Inl e, example_handler2, example_world) \<and> is_DocumentError e)
   \<and> (\<exists>e. FormatHandler_format_paragraph example_world example_handler2 0
           \<lparr>alignment = Some ''middle'', first_line_indent = Some (PyInt 10),
            left_indent = None, right_indent = None, line_spacing = None,
            line_spacing_rule = None, before_spacing = None, after_spacing = None\<rparr>
         = (Inl e, example_handler2, example_world) \<and> is_DocumentError e)
   \<and> (\<exists>e. FormatHandler_format_paragraph example_world example_handler2 0
           \<lparr>alignment = None, first_line_indent = None,
            left_indent = None, right_indent = None, line_spacing = Some (PyInt 2),
            line_spacing_rule = Some ''double'', before_spacing = None,
            after_spacing = Some (PyStr ''3'')\<rparr>
         = (Inl e, example_handler2, example_world) \<and> is_DocumentError e)"
proof -
  have a: "\<exists>e. FormatHandler_format_paragraph example_world example_handler2 0
           \<lparr>alignment = Some ''center'', first_line_indent = Some (PyInt 10),
            left_indent = Some (PyInt (- 5)), right_indent = None, line_spacing = None,
            line_spacing_rule = None, before_spacing = None, after_spacing = None\<rparr>
         = (Inl e, example_handler2, example_world) \<and> is_DocumentError e"
    by (rule format_paragraph_validates_first, rule disjI1, rule exI [of _ "PyInt (- 5)"])
       simp
  have b: "\<exists>e. FormatHandler_format_paragraph example_world example_handler2 0
           \<lparr>alignment = Some ''middle'', first_line_indent = Some (PyInt 10),
            left_indent = None, right_indent = None, line_spacing = None,
            line_spacing_rule = None, before_spacing = None, after_spacing = None\<rparr>
         = (Inl e, example_handler2, example_world) \<and> is_DocumentError e"
    by (rule format_paragraph_validates_first, rule disjI2, rule disjI1,
        rule exI [of _ "''middle''"])
       (simp add: lower_def lower_char_def valid_alignments_def)
  have c: "\<exists>e. FormatHandler_format_paragraph example_world example_handler2 0
           \<lparr>alignment = None, first_line_indent = None,
            left_indent = None, right_indent = None, line_spacing = Some (PyInt 2),
            line_spacing_rule = Some ''double'', before_spacing = None,
            after_spacing = Some (PyStr ''3'')\<rparr>
         = (Inl e, example_handler2, example_world) \<and> is_DocumentError e"
    by (rule format_paragraph_validates_first, rule disjI1, rule exI [of _ "PyStr ''3''"])
       simp
  show ?thesis by (rule conjI [OF a conjI [OF b c]])
qed

section \<open>The conversion history\<close>

lemma is_ConversionError_default [simp]: "is_ConversionError (ConversionError_default m)"
  by (simp add: ConversionError_default_def)



















section \<open>Failures at the tool boundary\<close>

lemma example_missing_abspath:
  "abspath example_world ''./word_files/missing.docx'' = ''/srv/app/word_files/missing.docx''"
  "abspath example_world ''/srv/app/word_files/missing.docx'' = ''/srv/app/word_files/missing.docx''"
  by (simp_all add: abspath_def abspath_in_def normpath_def startswith_def
      path_join_def endswith_def example_world_def)

lemma example_missing_init:
  "BaseHandler_init example_world ''./word_files/missing.docx'' =
     Inl (DocumentError ''Document file not found: /srv/app/word_files/missing.docx''
            ''DOC_LOAD_ERROR'')"
proof -
  have "\<not> isfile example_world ''/srv/app/word_files/missing.docx''"
    by (simp add: isfile_def example_missing_abspath) (simp add: example_world_def)
  then show ?thesis
    by (simp add: BaseHandler_init_def example_missing_abspath DocumentError_default_def)
qed

lemma example_missing_with_handler:
  "with_handler example_world ''missing.docx'' ''./word_files'' method =
     (Inl (DocumentError ''Document file not found: /srv/app/word_files/missing.docx''
             ''DOC_LOAD_ERROR''), example_world)"
proof -
  have j: "path_join ''./word_files'' ''missing.docx'' = ''./word_files/missing.docx''"
      "dirname ''./word_files/missing.docx'' = ''./word_files''"
    by (simp_all add: path_join_def startswith_def endswith_def dirname_def upto_last_def
        rstrip_char_def)
  have "get_doc_path example_world ''missing.docx'' (Some ''./word_files'') =
      (Inr ''./word_files/missing.docx'', example_world)"
    using example_world_dir by (simp add: get_doc_path_def Let_def j)
  then show ?thesis by (simp add: with_handler_def example_missing_init)
qed

text \<open>
  Claim C1 against the code. Each tool function has one \<open>except\<close> clause, for one
  exception class. The paragraph tools catch \<open>ParagraphError\<close> only, while
  \<open>BaseHandler.__init__\<close> raises a \<open>DocumentError\<close> for a file that does not exist:
  \<open>get_paragraph_text\<close> on the missing document \<open>missing.docx\<close> returns no envelope,
  the \<open>DocumentError\<close> leaves the tool function. The same failure in a format tool,
  whose clause is for \<open>DocumentError\<close>, is returned as an error envelope.
\<close>

theorem paragraph_tool_missing_file_propagates:
  "paragraph_tools_get_paragraph_text example_world ''missing.docx'' 0 0 ''./word_files'' =
     (Inl (DocumentError ''Document file not found: /srv/app/word_files/missing.docx''
             ''DOC_LOAD_ERROR''), example_world)
   \<and> format_tools_get_paragraph_format example_world ''missing.docx'' 0 ''./word_files'' =
     (Inr (Failure ''Document file not found: /srv/app/word_files/missing.docx''
             \<lparr>err_code = ''FORMAT_INFO_ERROR'', err_type = ''DocumentError'',
              err_details = DetailsText
                ''Document file not found: /srv/app/word_files/missing.docx'',
              err_suggestion = ''Please check if the paragraph index is valid.''\<rparr>),
      example_world)"
  by (simp add: paragraph_tools_get_paragraph_text_def format_tools_get_paragraph_format_def
      example_missing_with_handler tool_result_def)

end
